theory Spec2Isabelle
  imports Complex_Main "HOL-Library.AList"
begin

section \<open>Values of the data model\<close>

text \<open>
  Numbers. A JavaScript number is modelled as an exact real (\<open>Fin\<close>) or as \<open>NaN\<close>, the
  value that arithmetic on a missing field yields (\<open>transform.x + props.width\<close> with no
  \<open>width\<close> key). Rounding and the infinities of IEEE doubles are not modelled.
  Arithmetic and comparisons follow ECMAScript: an operation with a NaN operand is NaN,
  a comparison with a NaN operand is false.
\<close>

datatype jsnum = Fin real | NaN

fun num_add :: "jsnum \<Rightarrow> jsnum \<Rightarrow> jsnum" where
  "num_add (Fin a) (Fin b) = Fin (a + b)"
| "num_add _ _ = NaN"

fun num_sub :: "jsnum \<Rightarrow> jsnum \<Rightarrow> jsnum" where
  "num_sub (Fin a) (Fin b) = Fin (a - b)"
| "num_sub _ _ = NaN"

fun Math_abs :: "jsnum \<Rightarrow> jsnum" where
  "Math_abs (Fin a) = Fin \<bar>a\<bar>"
| "Math_abs NaN = NaN"

fun Math_min :: "jsnum \<Rightarrow> jsnum \<Rightarrow> jsnum" where
  "Math_min (Fin a) (Fin b) = Fin (min a b)"
| "Math_min _ _ = NaN"

fun num_ge :: "jsnum \<Rightarrow> jsnum \<Rightarrow> bool" where
  "num_ge (Fin a) (Fin b) = (a \<ge> b)"
| "num_ge _ _ = False"

fun num_le :: "jsnum \<Rightarrow> jsnum \<Rightarrow> bool" where
  "num_le (Fin a) (Fin b) = (a \<le> b)"
| "num_le _ _ = False"

fun num_lt :: "jsnum \<Rightarrow> jsnum \<Rightarrow> bool" where
  "num_lt (Fin a) (Fin b) = (a < b)"
| "num_lt _ _ = False"

text \<open>Reading a numeric property that may be missing: \<open>undefined\<close> converts to NaN.\<close>

fun ToNumber :: "jsnum option \<Rightarrow> jsnum" where
  "ToNumber (Some n) = n"
| "ToNumber None = NaN"

text \<open>
  A property that the engine sets to a string, to \<open>null\<close>, or leaves out
  (\<open>endConnectedId\<close>, \<open>endAnchor\<close>): the three cases differ under object spread, where a
  \<open>null\<close> of the update overwrites and a missing key does not.
\<close>

datatype 'a nullable = Absent | Null | Val 'a

text \<open>Truthiness of such a property: a non-empty string.\<close>

fun truthy :: "string nullable \<Rightarrow> bool" where
  "truthy (Val s) = (s \<noteq> [])"
| "truthy _ = False"

text \<open>\<open>v || d\<close> on such a property.\<close>

fun or_else :: "string nullable \<Rightarrow> string \<Rightarrow> string" where
  "or_else (Val s) d = (if s \<noteq> [] then s else d)"
| "or_else _ d = d"

text \<open>Spread of one key: the update's value when the update has the key.\<close>

fun over :: "'a option \<Rightarrow> 'a option \<Rightarrow> 'a option" where
  "over old None = old"
| "over old (Some v) = Some v"

fun over_field :: "'a nullable \<Rightarrow> 'a nullable \<Rightarrow> 'a nullable" where
  "over_field old Absent = old"
| "over_field old new = new"

text \<open>
  \<open>Point\<close>, \<open>BBox\<close> and \<open>Transform\<close> of Types.ts. Field names that would clash with
  variables are prefixed: \<open>px\<close>, \<open>py\<close> for \<open>Point.x\<close>, \<open>Point.y\<close>; \<open>t_x\<close>, \<open>t_y\<close> for
  \<open>Transform.x\<close>, \<open>Transform.y\<close>.
\<close>

record point =
  px :: jsnum
  py :: jsnum

record bbox =
  minX :: jsnum
  minY :: jsnum
  maxX :: jsnum
  maxY :: jsnum

record transform =
  t_x :: jsnum
  t_y :: jsnum
  scaleX :: jsnum
  scaleY :: jsnum
  rotation :: jsnum

text \<open>\<open>Partial<Transform>\<close>: every key optional.\<close>

record ptransform =
  pt_x :: "jsnum option"
  pt_y :: "jsnum option"
  pt_scaleX :: "jsnum option"
  pt_scaleY :: "jsnum option"
  pt_rotation :: "jsnum option"

text \<open>
  \<open>props: Record<string, any>\<close>, restricted to the keys that the engine reads or writes,
  each with the type the engine gives it. \<open>p_start\<close>, \<open>p_end\<close>, \<open>p_text\<close>, \<open>p_name\<close> stand for
  the keys \<open>start\<close>, \<open>end\<close>, \<open>text\<close>, \<open>name\<close>. A missing key is \<open>None\<close> (or \<open>Absent\<close>).
  The same record is the \<open>props\<close> part of an update.
\<close>

record props =
  width :: "jsnum option"
  height :: "jsnum option"
  p_start :: "point option"
  p_end :: "point option"
  startConnectedId :: "string nullable"
  endConnectedId :: "string nullable"
  startAnchor :: "string nullable"
  endAnchor :: "string nullable"
  direction :: "string option"
  color :: "string option"
  p_text :: "string option"
  p_name :: "string option"
  src :: "string option"

record metadata =
  selected :: "bool option"

record entity =
  e_id :: string
  e_type :: string
  transform :: transform
  props :: props
  metadata :: metadata
  visible :: bool
  parentId :: "string option"

definition no_props :: props where
  "no_props = \<lparr>width = None, height = None, p_start = None, p_end = None,
     startConnectedId = Absent, endConnectedId = Absent, startAnchor = Absent,
     endAnchor = Absent, direction = None, color = None, p_text = None, p_name = None,
     src = None\<rparr>"

definition no_transform :: ptransform where
  "no_transform = \<lparr>pt_x = None, pt_y = None, pt_scaleX = None, pt_scaleY = None,
     pt_rotation = None\<rparr>"

text \<open>\<open>{ ...a, ...b }\<close> on each of the three field groups.\<close>

definition spread_transform :: "transform \<Rightarrow> ptransform \<Rightarrow> transform" where
  "spread_transform a b =
     \<lparr>t_x = (case pt_x b of Some v \<Rightarrow> v | None \<Rightarrow> t_x a),
      t_y = (case pt_y b of Some v \<Rightarrow> v | None \<Rightarrow> t_y a),
      scaleX = (case pt_scaleX b of Some v \<Rightarrow> v | None \<Rightarrow> scaleX a),
      scaleY = (case pt_scaleY b of Some v \<Rightarrow> v | None \<Rightarrow> scaleY a),
      rotation = (case pt_rotation b of Some v \<Rightarrow> v | None \<Rightarrow> rotation a)\<rparr>"

definition spread_props :: "props \<Rightarrow> props \<Rightarrow> props" where
  "spread_props a b =
     \<lparr>width = over (width a) (width b),
      height = over (height a) (height b),
      p_start = over (p_start a) (p_start b),
      p_end = over (p_end a) (p_end b),
      startConnectedId = over_field (startConnectedId a) (startConnectedId b),
      endConnectedId = over_field (endConnectedId a) (endConnectedId b),
      startAnchor = over_field (startAnchor a) (startAnchor b),
      endAnchor = over_field (endAnchor a) (endAnchor b),
      direction = over (direction a) (direction b),
      color = over (color a) (color b),
      p_text = over (p_text a) (p_text b),
      p_name = over (p_name a) (p_name b),
      src = over (src a) (src b)\<rparr>"

definition spread_metadata :: "metadata \<Rightarrow> metadata \<Rightarrow> metadata" where
  "spread_metadata a b = \<lparr>selected = over (selected a) (selected b)\<rparr>"

text \<open>\<open>getAnchorPoint\<close> (Types.ts). The position is a string at run time; a string
  that no \<open>case\<close> matches falls out of the \<open>switch\<close> and the function returns
  \<open>undefined\<close> (\<open>None\<close>). Division by two is exact.\<close>

fun half :: "jsnum \<Rightarrow> jsnum" where
  "half (Fin a) = Fin (a / 2)"
| "half NaN = NaN"

definition getAnchorPoint :: "bbox \<Rightarrow> string \<Rightarrow> point option" where
  "getAnchorPoint b pos =
     (if pos = ''t'' then Some \<lparr>px = half (num_add (minX b) (maxX b)), py = minY b\<rparr>
      else if pos = ''r'' then Some \<lparr>px = maxX b, py = half (num_add (minY b) (maxY b))\<rparr>
      else if pos = ''b'' then Some \<lparr>px = half (num_add (minX b) (maxX b)), py = maxY b\<rparr>
      else if pos = ''l'' then Some \<lparr>px = minX b, py = half (num_add (minY b) (maxY b))\<rparr>
      else if pos = ''c'' then
        Some \<lparr>px = half (num_add (minX b) (maxX b)), py = half (num_add (minY b) (maxY b))\<rparr>
      else None)"


section \<open>Control flow: exceptions, loops, fuel\<close>

datatype error = TypeError | SyntaxError | Other_error string

text \<open>
  What a call does to the state \<open>'s\<close> it runs on. \<open>Returned s\<close>: it returns, leaving state
  \<open>s\<close>. \<open>Threw e s\<close>: it throws \<open>e\<close>, having changed the state to \<open>s\<close> before. \<open>Out_of_fuel\<close>:
  the nesting of calls went deeper than the fuel given (see \<open>updateObject\<close>). \<open>Untyped\<close>:
  the call stores a value that is no \<open>CanvasEntity\<close>; what the code does with it is not
  modelled.
\<close>

datatype 's outcome = Returned 's | Threw error 's | Out_of_fuel | Untyped

text \<open>Statement sequencing \<open>f; g\<close>: \<open>g\<close> runs when \<open>f\<close> returns.\<close>

definition seq :: "('s \<Rightarrow> 's outcome) \<Rightarrow> ('s \<Rightarrow> 's outcome) \<Rightarrow> 's \<Rightarrow> 's outcome" where
  "seq f g s = (case f s of Returned s' \<Rightarrow> g s' | r \<Rightarrow> r)"

text \<open>\<open>try { body } catch (e) { handler }\<close>.\<close>

definition try_catch ::
  "('s \<Rightarrow> 's outcome) \<Rightarrow> (error \<Rightarrow> 's \<Rightarrow> 's outcome) \<Rightarrow> 's \<Rightarrow> 's outcome" where
  "try_catch body handler s = (case body s of Threw e s' \<Rightarrow> handler e s' | r \<Rightarrow> r)"

text \<open>\<open>xs.forEach(f)\<close>: an exception of \<open>f\<close> ends the loop and propagates.\<close>

fun forEach :: "('a \<Rightarrow> 's \<Rightarrow> 's outcome) \<Rightarrow> 'a list \<Rightarrow> 's \<Rightarrow> 's outcome" where
  "forEach f [] s = Returned s"
| "forEach f (a # as) s = (case f a s of Returned s' \<Rightarrow> forEach f as s' | r \<Rightarrow> r)"

section \<open>EventBus\<close>

text \<open>
  \<open>EventBus.emit\<close> (EventBus.ts). \<open>callbacks\<close> is \<open>this.listeners.get(event)\<close>, the listeners in
  the order of their registration (the empty list when the event has none);
  \<open>console_error\<close> is what \<open>console.error\<close> does to the state. A listener is a function of the
  payload and the state; listeners do not subscribe or unsubscribe during a dispatch.
\<close>

definition emit ::
  "(error \<Rightarrow> 's \<Rightarrow> 's) \<Rightarrow> ('p \<Rightarrow> 's \<Rightarrow> 's outcome) list \<Rightarrow> 'p \<Rightarrow> 's \<Rightarrow> 's outcome" where
  "emit console_error callbacks payload =
     forEach (\<lambda>cb. try_catch (cb payload) (\<lambda>err s. Returned (console_error err s))) callbacks"

text \<open>The state in which a listener leaves the dispatch loop, for a listener that ends.\<close>

fun after_listener :: "(error \<Rightarrow> 's \<Rightarrow> 's) \<Rightarrow> 's \<Rightarrow> 's outcome \<Rightarrow> 's" where
  "after_listener console_error s (Returned s') = s'"
| "after_listener console_error s (Threw e s') = console_error e s'"
| "after_listener console_error s _ = s"

fun ends :: "'s outcome \<Rightarrow> bool" where
  "ends (Returned s) = True"
| "ends (Threw e s) = True"
| "ends _ = False"

section \<open>Object types\<close>

text \<open>
  \<open>ObjectTypeDefinition\<close> without \<open>render\<close>. The ten types share \<open>RectangleType.getBBox\<close>.
  \<open>RectangleType.hitTest\<close> exists twice: in ObjectTypes.ts with a padding of 10, and in
  InfiniteCanvasApp.tsx (the engine that the dashboard imports) without.
\<close>

record objtype =
  ot_getBBox :: "entity \<Rightarrow> bbox"
  ot_hitTest :: "entity \<Rightarrow> jsnum \<Rightarrow> jsnum \<Rightarrow> bool"

definition Rectangle_getBBox :: "entity \<Rightarrow> bbox" where
  "Rectangle_getBBox e =
     \<lparr>minX = t_x (transform e), minY = t_y (transform e),
      maxX = num_add (t_x (transform e)) (ToNumber (width (props e))),
      maxY = num_add (t_y (transform e)) (ToNumber (height (props e)))\<rparr>"

text \<open>ObjectTypes.ts, lines 55 to 59.\<close>

definition ObjectTypes_Rectangle_hitTest :: "entity \<Rightarrow> jsnum \<Rightarrow> jsnum \<Rightarrow> bool" where
  "ObjectTypes_Rectangle_hitTest e wx wy =
     (let p = Fin 10 in
      num_ge wx (num_sub (t_x (transform e)) p) \<and>
      num_le wx (num_add (num_add (t_x (transform e)) (ToNumber (width (props e)))) p) \<and>
      num_ge wy (num_sub (t_y (transform e)) p) \<and>
      num_le wy (num_add (num_add (t_y (transform e)) (ToNumber (height (props e)))) p))"

text \<open>InfiniteCanvasApp.tsx, lines 319 to 322.\<close>

definition Rectangle_hitTest :: "entity \<Rightarrow> jsnum \<Rightarrow> jsnum \<Rightarrow> bool" where
  "Rectangle_hitTest e wx wy =
     (num_ge wx (t_x (transform e)) \<and>
      num_le wx (num_add (t_x (transform e)) (ToNumber (width (props e)))) \<and>
      num_ge wy (t_y (transform e)) \<and>
      num_le wy (num_add (t_y (transform e)) (ToNumber (height (props e)))))"

text \<open>\<open>LineType.hitTest\<close>, the same in both files.\<close>

definition Line_hitTest :: "entity \<Rightarrow> jsnum \<Rightarrow> jsnum \<Rightarrow> bool" where
  "Line_hitTest e wx wy =
     (num_ge wx (num_sub (t_x (transform e)) (Fin 10)) \<and>
      num_le wx (num_add (num_add (t_x (transform e)) (ToNumber (width (props e)))) (Fin 10)) \<and>
      num_ge wy (num_sub (t_y (transform e)) (Fin 10)) \<and>
      num_le wy (num_add (num_add (t_y (transform e)) (ToNumber (height (props e)))) (Fin 10)))"

definition RectangleType :: objtype where
  "RectangleType = \<lparr>ot_getBBox = Rectangle_getBBox, ot_hitTest = Rectangle_hitTest\<rparr>"

definition LineType :: objtype where
  "LineType = \<lparr>ot_getBBox = Rectangle_getBBox, ot_hitTest = Line_hitTest\<rparr>"

text \<open>
  \<open>SceneManager.getObjectType\<close> on the registry that the constructor of \<open>CanvasEngine\<close> fills
  (InfiniteCanvasApp.tsx, lines 911 to 920); every type but LINE and ARROW takes
  \<open>getBBox\<close> and \<open>hitTest\<close> from \<open>RectangleType\<close>.
\<close>

definition getObjectType :: "string \<Rightarrow> objtype option" where
  "getObjectType t =
     (if t \<in> set [''RECTANGLE'', ''STICKY_NOTE'', ''TEXT'', ''ELLIPSE'', ''TRIANGLE'',
                  ''DIAMOND'', ''FRAME'', ''IMAGE''] then Some RectangleType
      else if t \<in> set [''LINE'', ''ARROW''] then Some LineType
      else None)"

section \<open>Scene state\<close>

datatype tool = SELECT | RECT | STICKY | TEXT | ELLIPSE | TRIANGLE | DIAMOND | LINE | ARROW
  | FRAME

text \<open>An event handed to \<open>EventBus.emit\<close>, with its payload.\<close>

datatype event =
    ENTITY_CREATED entity
  | ENTITY_UPDATED entity entity
  | ENTITY_DELETED entity
  | SELECTION_CHANGED "string list"
  | TOOL_CHANGED tool
  | REQUEST_IMAGE_UPLOAD string

text \<open>
  The state that the scene manager, the selection module and the listeners share.
  \<open>entities\<close> is the \<open>Map\<close> of \<open>SceneManager\<close>, in insertion order; \<open>selectedIds\<close> is the \<open>Set\<close> of
  \<open>SelectionModule\<close>, in insertion order; \<open>isDirty\<close> is the flag of the engine that the
  \<open>markDirty\<close> listener sets. \<open>emitted\<close> and \<open>console\<close> are logs that the code does not keep:
  every event passed to \<open>emit\<close>, and every error passed to \<open>console.error\<close>.
\<close>

record scene =
  entities :: "(string \<times> entity) list"
  selectedIds :: "string list"
  isDirty :: bool
  emitted :: "event list"
  console :: "error list"

definition console_error :: "error \<Rightarrow> scene \<Rightarrow> scene" where
  "console_error err st = st\<lparr>console := console st @ [err]\<rparr>"

definition markDirty :: "'p \<Rightarrow> scene \<Rightarrow> scene outcome" where
  "markDirty payload st = Returned (st\<lparr>isDirty := True\<rparr>)"

text \<open>\<open>this.events.emit(event, payload)\<close>: the event is logged, then dispatched.\<close>

definition events_emit ::
  "event \<Rightarrow> ('p \<Rightarrow> scene \<Rightarrow> scene outcome) list \<Rightarrow> 'p \<Rightarrow> scene \<Rightarrow> scene outcome" where
  "events_emit ev callbacks payload st =
     emit console_error callbacks payload (st\<lparr>emitted := emitted st @ [ev]\<rparr>)"

section \<open>SceneManager\<close>

definition getObject :: "scene \<Rightarrow> string \<Rightarrow> entity option" where
  "getObject st i = map_of (entities st) i"

definition getAllObjects :: "scene \<Rightarrow> entity list" where
  "getAllObjects st = map snd (entities st)"

text \<open>
  \<open>createObject\<close>. The identifier that \<open>crypto.randomUUID()\<close> returns is the argument \<open>i\<close>.
  The only listener of ENTITY_CREATED is \<open>markDirty\<close>.
\<close>

definition createObject ::
  "string \<Rightarrow> string \<Rightarrow> props \<Rightarrow> ptransform \<Rightarrow> metadata \<Rightarrow> string option \<Rightarrow> scene
    \<Rightarrow> scene outcome" where
  "createObject i ty pr tr md parent st =
     (let entity = \<lparr>e_id = i, e_type = ty,
            transform = spread_transform
              \<lparr>t_x = Fin 0, t_y = Fin 0, scaleX = Fin 1, scaleY = Fin 1, rotation = Fin 0\<rparr> tr,
            props = pr, metadata = md, visible = True, parentId = parent\<rparr>
      in events_emit (ENTITY_CREATED entity) [markDirty] entity
           (st\<lparr>entities := AList.update i entity (entities st)\<rparr>))"

text \<open>The argument of \<open>updateObject\<close>: every key optional.\<close>

record updates =
  u_transform :: "ptransform option"
  u_props :: "props option"
  u_metadata :: "metadata option"
  u_visible :: "bool option"
  u_parentId :: "string option"

definition no_updates :: updates where
  "no_updates = \<lparr>u_transform = None, u_props = None, u_metadata = None, u_visible = None,
     u_parentId = None\<rparr>"

text \<open>The object literal \<open>updatedEntity\<close> of \<open>updateObject\<close>.\<close>

definition apply_updates :: "entity \<Rightarrow> updates \<Rightarrow> entity" where
  "apply_updates entity u =
     \<lparr>e_id = e_id entity, e_type = e_type entity,
      transform = (case u_transform u of Some t \<Rightarrow> spread_transform (transform entity) t
                   | None \<Rightarrow> transform entity),
      props = (case u_props u of Some p \<Rightarrow> spread_props (props entity) p
               | None \<Rightarrow> props entity),
      metadata = (case u_metadata u of Some m \<Rightarrow> spread_metadata (metadata entity) m
                  | None \<Rightarrow> metadata entity),
      visible = (case u_visible u of Some v \<Rightarrow> v | None \<Rightarrow> visible entity),
      parentId = over (parentId entity) (u_parentId u)\<rparr>"

section \<open>ConnectionModule\<close>

definition is_connector :: "entity \<Rightarrow> bool" where
  "is_connector o' = (e_type o' = ''LINE'' \<or> e_type o' = ''ARROW'')"

text \<open>
  One end of a connector in \<open>updateLineConnections\<close>: \<open>fallback\<close> is the stored end point;
  when the end is connected to an entity that exists and whose type is registered, the
  result is the anchor point on its bounding box, \<open>None\<close> when \<open>getAnchorPoint\<close> returns
  \<open>undefined\<close>.
\<close>

definition resolve_end ::
  "scene \<Rightarrow> string nullable \<Rightarrow> string nullable \<Rightarrow> point \<Rightarrow> point option" where
  "resolve_end st connectedId anchor fallback =
     (case connectedId of
        Val i \<Rightarrow>
          (if i \<noteq> [] then
             (case getObject st i of
                Some obj \<Rightarrow>
                  (case getObjectType (e_type obj) of
                     Some typeDef \<Rightarrow> getAnchorPoint (ot_getBBox typeDef obj) (or_else anchor ''c'')
                   | None \<Rightarrow> Some fallback)
              | None \<Rightarrow> Some fallback)
           else Some fallback)
      | _ \<Rightarrow> Some fallback)"

text \<open>
  The argument that \<open>updateLineConnections\<close> builds for \<open>updateObject\<close>. Reading \<open>s.x\<close> or
  \<open>e.x\<close> of an undefined end point throws a TypeError (\<open>None\<close>), before any change of the
  state.
\<close>

definition reroute :: "scene \<Rightarrow> entity \<Rightarrow> updates option" where
  "reroute st line =
     (let s0 = (case p_start (props line) of Some p \<Rightarrow> p
                | None \<Rightarrow> \<lparr>px = t_x (transform line), py = t_y (transform line)\<rparr>);
          e0 = (case p_end (props line) of Some p \<Rightarrow> p
                | None \<Rightarrow> \<lparr>px = num_add (t_x (transform line)) (ToNumber (width (props line))),
                           py = num_add (t_y (transform line)) (ToNumber (height (props line)))\<rparr>)
      in case (resolve_end st (startConnectedId (props line)) (startAnchor (props line)) s0,
               resolve_end st (endConnectedId (props line)) (endAnchor (props line)) e0) of
           (Some s, Some e) \<Rightarrow>
             Some (no_updates\<lparr>
                  u_transform := Some (no_transform\<lparr>pt_x := Some (Math_min (px s) (px e)),
                                                     pt_y := Some (Math_min (py s) (py e))\<rparr>),
                  u_props := Some ((props line)\<lparr>
                     width := Some (Math_abs (num_sub (px e) (px s))),
                     height := Some (Math_abs (num_sub (py e) (py s))),
                     p_start := Some s, p_end := Some e\<rparr>)\<rparr>)
         | _ \<Rightarrow> None)"

text \<open>\<open>updateLineConnections\<close>; \<open>upd\<close> is \<open>this.sceneManager.updateObject\<close>.\<close>

definition updateLineConnections ::
  "(string \<Rightarrow> updates \<Rightarrow> scene \<Rightarrow> scene outcome) \<Rightarrow> entity \<Rightarrow> scene \<Rightarrow> scene outcome" where
  "updateLineConnections upd line st =
     (case reroute st line of
        Some u \<Rightarrow> upd (e_id line) u st
      | None \<Rightarrow> Threw TypeError st)"

definition attached_to :: "string \<Rightarrow> entity \<Rightarrow> bool" where
  "attached_to i o' =
     (is_connector o' \<and>
      (startConnectedId (props o') = Val i \<or> endConnectedId (props o') = Val i))"

definition onEntityUpdated ::
  "(string \<Rightarrow> updates \<Rightarrow> scene \<Rightarrow> scene outcome) \<Rightarrow> entity \<times> entity \<Rightarrow> scene \<Rightarrow> scene outcome"
  where
  "onEntityUpdated upd payload st =
     (let entity = snd payload in
      if \<not> is_connector entity then
        forEach (updateLineConnections upd) (filter (attached_to (e_id entity)) (getAllObjects st)) st
      else Returned st)"

section \<open>SceneManager.updateObject\<close>

text \<open>
  The body of \<open>updateObject\<close>. The listeners of ENTITY_UPDATED are, in the order of their
  registration, \<open>ConnectionModule.onEntityUpdated\<close> and \<open>markDirty\<close>; the first calls
  \<open>updateObject\<close> again, which is the argument \<open>upd\<close> here.
\<close>

definition updateObject_body ::
  "(string \<Rightarrow> updates \<Rightarrow> scene \<Rightarrow> scene outcome) \<Rightarrow> string \<Rightarrow> updates \<Rightarrow> scene \<Rightarrow> scene outcome"
  where
  "updateObject_body upd i u st =
     (case getObject st i of
        None \<Rightarrow> Returned st
      | Some entity \<Rightarrow>
          (let updatedEntity = apply_updates entity u
           in events_emit (ENTITY_UPDATED entity updatedEntity)
                [onEntityUpdated upd, markDirty] (entity, updatedEntity)
                (st\<lparr>entities := AList.update i updatedEntity (entities st)\<rparr>)))"

text \<open>
  \<open>updateObject\<close> calls itself through its listener, so the model counts the depth of
  that nesting: with fuel \<open>n\<close>, a call nested \<open>n\<close> deep gives \<open>Out_of_fuel\<close>.
\<close>

fun updateObject :: "nat \<Rightarrow> string \<Rightarrow> updates \<Rightarrow> scene \<Rightarrow> scene outcome" where
  "updateObject 0 i u st = Out_of_fuel"
| "updateObject (Suc n) i u st = updateObject_body (updateObject n) i u st"

section \<open>SelectionModule\<close>

definition broadcastSelection :: "scene \<Rightarrow> scene outcome" where
  "broadcastSelection st =
     events_emit (SELECTION_CHANGED (selectedIds st)) [markDirty] (selectedIds st) st"

definition onEntityDeleted :: "entity \<Rightarrow> scene \<Rightarrow> scene outcome" where
  "onEntityDeleted entity st =
     (if e_id entity \<in> set (selectedIds st) then
        broadcastSelection (st\<lparr>selectedIds := removeAll (e_id entity) (selectedIds st)\<rparr>)
      else Returned st)"

text \<open>\<open>{ metadata: { selected: b } }\<close>.\<close>

definition selected_update :: "bool \<Rightarrow> updates" where
  "selected_update b = no_updates\<lparr>u_metadata := Some \<lparr>selected = Some b\<rparr>\<rparr>"

definition set_add :: "string \<Rightarrow> string list \<Rightarrow> string list" where
  "set_add i xs = (if i \<in> set xs then xs else xs @ [i])"

definition deselect_all :: "nat \<Rightarrow> scene \<Rightarrow> scene outcome" where
  "deselect_all n =
     seq (\<lambda>st. forEach (\<lambda>sid. updateObject n sid (selected_update False)) (selectedIds st) st)
         (\<lambda>st. Returned (st\<lparr>selectedIds := []\<rparr>))"

definition select :: "nat \<Rightarrow> string \<Rightarrow> bool \<Rightarrow> scene \<Rightarrow> scene outcome" where
  "select n i multi =
     seq (if \<not> multi then deselect_all n else Returned)
      (seq (\<lambda>st. Returned (st\<lparr>selectedIds := set_add i (selectedIds st)\<rparr>))
        (seq (updateObject n i (selected_update True)) broadcastSelection))"

definition clearSelection :: "nat \<Rightarrow> scene \<Rightarrow> scene outcome" where
  "clearSelection n = seq (deselect_all n) broadcastSelection"

section \<open>SceneManager: delete and load\<close>

text \<open>
  \<open>deleteObject\<close>. The listeners of ENTITY_DELETED are \<open>SelectionModule.onEntityDeleted\<close> and
  \<open>markDirty\<close>.
\<close>

definition deleteObject :: "string \<Rightarrow> scene \<Rightarrow> scene outcome" where
  "deleteObject i st =
     (case getObject st i of
        Some entity \<Rightarrow>
          events_emit (ENTITY_DELETED entity) [onEntityDeleted, markDirty] entity
            (st\<lparr>entities := AList.delete i (entities st)\<rparr>)
      | None \<Rightarrow> Returned st)"

definition deleteSelected :: "nat \<Rightarrow> scene \<Rightarrow> scene outcome" where
  "deleteSelected n =
     seq (\<lambda>st. forEach deleteObject (selectedIds st) st) (clearSelection n)"

section \<open>Camera\<close>

text \<open>
  \<open>Camera\<close>. Screen and world coordinates computed by the camera are finite and exact;
  \<open>zoom\<close> is not zero (it starts at 1, and \<open>onWheel\<close> and the zoom buttons keep it within
  0.1 and 5), so the divisions are those of the reals.
\<close>

record camera =
  cam_x :: real
  cam_y :: real
  zoom :: real

definition screenToWorld :: "camera \<Rightarrow> real \<Rightarrow> real \<Rightarrow> real \<times> real" where
  "screenToWorld c sx sy = (sx / zoom c + cam_x c, sy / zoom c + cam_y c)"

definition worldToScreen :: "camera \<Rightarrow> real \<Rightarrow> real \<Rightarrow> real \<times> real" where
  "worldToScreen c wx wy = ((wx - cam_x c) * zoom c, (wy - cam_y c) * zoom c)"

section \<open>The interaction engine\<close>

text \<open>The fields of a pointer or wheel event that the handlers read.\<close>

record dom_event =
  button :: nat
  shiftKey :: bool
  ctrlKey :: bool
  clientX :: real
  clientY :: real
  deltaX :: real
  deltaY :: real

text \<open>\<open>HandleType\<close>: \<open>'tl' | 'tr' | 'bl' | 'br'\<close>.\<close>

datatype handle = H_tl | H_tr | H_bl | H_br

record resize_original =
  ro_x :: jsnum
  ro_y :: jsnum
  ro_w :: jsnum
  ro_h :: jsnum

text \<open>
  The state of \<open>CanvasEngine\<close>. \<open>scene\<close> holds the state of its \<open>SceneManager\<close> and
  \<open>SelectionModule\<close> and its own \<open>isDirty\<close>; \<open>canvas_width\<close> and \<open>canvas_height\<close> are the fields
  \<open>width\<close> and \<open>height\<close>. The canvas, its cursor style and the host callbacks
  \<open>onToolChange\<close>, \<open>onZoomChange\<close> are not part of the state.
\<close>

record engine =
  scene :: scene
  camera :: camera
  activeTool :: tool
  canvas_width :: real
  canvas_height :: real
  isPanning :: bool
  lastMouse :: "real \<times> real"
  draggedEntityId :: "string option"
  draggedChildrenIds :: "string list"
  dragOffset :: point
  creatingEntityId :: "string option"
  createStartPoint :: "point option"
  isResizing :: bool
  resizeHandle :: "handle option"
  resizeOriginal :: "resize_original option"
  framePreset :: "string option"
  hoveredEntityId :: "string option"
  hoveredAnchor :: "string option"

text \<open>Truthiness of a \<open>string | null\<close> field.\<close>

fun nonempty :: "string option \<Rightarrow> bool" where
  "nonempty (Some s) = (s \<noteq> [])"
| "nonempty None = False"

text \<open>A call on the scene manager or the selection module, from the engine.\<close>

definition on_scene :: "(scene \<Rightarrow> scene outcome) \<Rightarrow> engine \<Rightarrow> engine outcome" where
  "on_scene f eng =
     (case f (scene eng) of
        Returned st \<Rightarrow> Returned (eng\<lparr>scene := st\<rparr>)
      | Threw e st \<Rightarrow> Threw e (eng\<lparr>scene := st\<rparr>)
      | Out_of_fuel \<Rightarrow> Out_of_fuel
      | Untyped \<Rightarrow> Untyped)"

definition set_dirty :: "engine \<Rightarrow> engine" where
  "set_dirty eng = eng\<lparr>scene := (scene eng)\<lparr>isDirty := True\<rparr>\<rparr>"

definition FRAME_PRESETS :: "(string \<times> real \<times> real) list" where
  "FRAME_PRESETS =
     [(''A4'', 595, 842), (''Letter'', 612, 792), (''16:9'', 1920, 1080),
      (''4:3'', 1024, 768), (''1:1'', 1080, 1080), (''Mobile'', 390, 844),
      (''Tablet'', 834, 1194), (''Desktop'', 1440, 1024)]"

text \<open>\<open>onWheel\<close>.\<close>

definition onWheel :: "dom_event \<Rightarrow> engine \<Rightarrow> engine" where
  "onWheel e eng =
     set_dirty
       (if ctrlKey e then
          (let delta = - deltaY e * 0.01;
               newZoom = min (max (zoom (camera eng) * (1 + delta)) 0.1) 5;
               wx = clientX e / zoom (camera eng) + cam_x (camera eng);
               wy = clientY e / zoom (camera eng) + cam_y (camera eng)
           in eng\<lparr>camera := \<lparr>cam_x = wx - clientX e / newZoom,
                               cam_y = wy - clientY e / newZoom, zoom = newZoom\<rparr>\<rparr>)
        else
          eng\<lparr>camera := (camera eng)\<lparr>
                 cam_x := cam_x (camera eng) + deltaX e / zoom (camera eng),
                 cam_y := cam_y (camera eng) + deltaY e / zoom (camera eng)\<rparr>\<rparr>)"

text \<open>
  \<open>switchTool\<close>; \<open>fresh\<close> is the identifier that \<open>createObject\<close> draws when a preset frame
  is created. TOOL_CHANGED has no listener in the engine.
\<close>

definition switchTool :: "nat \<Rightarrow> string \<Rightarrow> tool \<Rightarrow> string option \<Rightarrow> engine \<Rightarrow> engine outcome"
  where
  "switchTool n fresh tool0 preset eng =
     (let finish = (\<lambda>tool1 preset1 eng1.
            on_scene (events_emit (TOOL_CHANGED tool1)
                        ([] :: (tool \<Rightarrow> scene \<Rightarrow> scene outcome) list) tool1)
              (eng1\<lparr>activeTool := tool1, framePreset := preset1\<rparr>))
      in case (if tool0 = FRAME \<and> nonempty preset then map_of FRAME_PRESETS (the preset)
               else None) of
           Some (w, h) \<Rightarrow>
             (let wx = (canvas_width eng / 2) / zoom (camera eng) + cam_x (camera eng);
                  wy = (canvas_height eng / 2) / zoom (camera eng) + cam_y (camera eng)
              in seq (on_scene (createObject fresh ''FRAME''
                         (no_props\<lparr>width := Some (Fin w), height := Some (Fin h),
                                    p_name := preset\<rparr>)
                         (no_transform\<lparr>pt_x := Some (Fin (wx - w / 2)),
                                        pt_y := Some (Fin (wy - h / 2))\<rparr>)
                         \<lparr>selected = None\<rparr> None))
                   (seq (on_scene (select n fresh False))
                        (\<lambda>eng'. finish SELECT None (set_dirty eng'))) eng)
         | None \<Rightarrow> finish tool0 preset eng)"

text \<open>\<open>getAnchorAt\<close> and \<open>getResizeHandleAt\<close>.\<close>

definition near :: "jsnum \<Rightarrow> jsnum \<Rightarrow> real \<Rightarrow> jsnum \<Rightarrow> jsnum \<Rightarrow> bool" where
  "near wx wy zm hx hy =
     (let hs = Fin ((16 / zm) / 2) in
      num_ge wx (num_sub hx hs) \<and> num_le wx (num_add hx hs) \<and>
      num_ge wy (num_sub hy hs) \<and> num_le wy (num_add hy hs))"

definition near_anchor :: "bbox \<Rightarrow> jsnum \<Rightarrow> jsnum \<Rightarrow> real \<Rightarrow> string \<Rightarrow> bool" where
  "near_anchor b wx wy zm pos =
     (case getAnchorPoint b pos of Some p \<Rightarrow> near wx wy zm (px p) (py p) | None \<Rightarrow> False)"

definition getAnchorAt :: "bbox \<Rightarrow> jsnum \<Rightarrow> jsnum \<Rightarrow> real \<Rightarrow> string option" where
  "getAnchorAt b wx wy zm =
     (if near_anchor b wx wy zm ''t'' then Some ''t''
      else if near_anchor b wx wy zm ''r'' then Some ''r''
      else if near_anchor b wx wy zm ''b'' then Some ''b''
      else if near_anchor b wx wy zm ''l'' then Some ''l''
      else None)"

definition getResizeHandleAt :: "bbox \<Rightarrow> jsnum \<Rightarrow> jsnum \<Rightarrow> real \<Rightarrow> handle option" where
  "getResizeHandleAt b wx wy zm =
     (if near wx wy zm (minX b) (minY b) then Some H_tl
      else if near wx wy zm (maxX b) (minY b) then Some H_tr
      else if near wx wy zm (minX b) (maxY b) then Some H_bl
      else if near wx wy zm (maxX b) (maxY b) then Some H_br
      else None)"

text \<open>\<open>hitTestGlobal\<close> and \<open>hitTestShapes\<close>: the last entity of the store that is hit.\<close>

definition hits :: "jsnum \<Rightarrow> jsnum \<Rightarrow> entity \<Rightarrow> bool" where
  "hits wx wy entity =
     (case getObjectType (e_type entity) of
        Some typeDef \<Rightarrow> ot_hitTest typeDef entity wx wy
      | None \<Rightarrow> False)"

definition hitTestGlobal :: "scene \<Rightarrow> jsnum \<Rightarrow> jsnum \<Rightarrow> entity option" where
  "hitTestGlobal st wx wy = find (hits wx wy) (rev (getAllObjects st))"

definition hitTestShapes :: "scene \<Rightarrow> jsnum \<Rightarrow> jsnum \<Rightarrow> entity option" where
  "hitTestShapes st wx wy =
     find (\<lambda>entity. \<not> is_connector entity \<and> e_type entity \<noteq> ''FRAME'' \<and> hits wx wy entity)
       (rev (getAllObjects st))"

text \<open>
  The hover resolution of \<open>onPointerMove\<close> (lines 1151 to 1179): the loop over the selected
  identifiers, which stops at the first selected shape with an anchor under the pointer.
\<close>

fun hover_selected ::
  "scene \<Rightarrow> jsnum \<Rightarrow> jsnum \<Rightarrow> real \<Rightarrow> string list \<Rightarrow> (string \<times> string) option" where
  "hover_selected st wx wy zm [] = None"
| "hover_selected st wx wy zm (sid # sids) =
     (case getObject st sid of
        Some obj \<Rightarrow>
          (case getObjectType (e_type obj) of
             Some def \<Rightarrow>
               (if \<not> is_connector obj \<and> e_type obj \<noteq> ''FRAME'' then
                  (case getAnchorAt (ot_getBBox def obj) wx wy zm of
                     Some anchor \<Rightarrow> Some (e_id obj, anchor)
                   | None \<Rightarrow> hover_selected st wx wy zm sids)
                else hover_selected st wx wy zm sids)
           | None \<Rightarrow> hover_selected st wx wy zm sids)
      | None \<Rightarrow> hover_selected st wx wy zm sids)"

definition hover_block :: "jsnum \<Rightarrow> jsnum \<Rightarrow> engine \<Rightarrow> engine outcome" where
  "hover_block wx wy eng =
     (let st = scene eng; zm = zoom (camera eng);
          sel = hover_selected st wx wy zm (selectedIds st);
          (newHoverId, newHoverAnchor) =
            (if nonempty (map_option fst sel) then (map_option fst sel, map_option snd sel)
             else (case hitTestShapes st wx wy of
                     Some hit \<Rightarrow>
                       (Some (e_id hit),
                        (case getObjectType (e_type hit) of
                           Some typeDef \<Rightarrow> getAnchorAt (ot_getBBox typeDef hit) wx wy zm
                         | None \<Rightarrow> map_option snd sel))
                   | None \<Rightarrow> (map_option fst sel, map_option snd sel)));
          eng1 = (if hoveredEntityId eng \<noteq> newHoverId \<or> hoveredAnchor eng \<noteq> newHoverAnchor
                  then set_dirty (eng\<lparr>hoveredEntityId := newHoverId,
                                       hoveredAnchor := newHoverAnchor\<rparr>)
                  else eng)
      in if \<not> nonempty newHoverAnchor \<and> activeTool eng = SELECT \<and>
            (case selectedIds st of
               [sid] \<Rightarrow> (case getObject st sid of
                           Some entity \<Rightarrow> \<not> is_connector entity \<and>
                                          getObjectType (e_type entity) = None
                         | None \<Rightarrow> False)
             | _ \<Rightarrow> False)
         then Threw TypeError eng1
         else Returned eng1)"

text \<open>The branch of \<open>onPointerMove\<close> that sizes the entity being created (lines 1219 to 1258).\<close>

definition creating_branch :: "nat \<Rightarrow> dom_event \<Rightarrow> jsnum \<Rightarrow> jsnum \<Rightarrow> string \<Rightarrow> point \<Rightarrow> engine
    \<Rightarrow> engine outcome" where
  "creating_branch n e wx wy cid start eng =
     (let st = scene eng;
          entity = getObject st cid;
          connector = (case entity of Some en \<Rightarrow> is_connector en | None \<Rightarrow> False);
          snap = (if connector \<and> nonempty (hoveredEntityId eng) \<and>
                     hoveredEntityId eng \<noteq> Some cid then
                    (case getObject st (the (hoveredEntityId eng)) of
                       Some hoverObj \<Rightarrow>
                         (case getObjectType (e_type hoverObj) of
                            Some typeDef \<Rightarrow>
                              (let anchor = (if nonempty (hoveredAnchor eng)
                                             then the (hoveredAnchor eng) else ''c'')
                               in Some (getAnchorPoint (ot_getBBox typeDef hoverObj) anchor,
                                        e_id hoverObj, anchor))
                          | None \<Rightarrow> None)
                     | None \<Rightarrow> None)
                  else None);
          targetW = (case snap of Some (p, _, _) \<Rightarrow> p | None \<Rightarrow> Some \<lparr>px = wx, py = wy\<rparr>)
      in case targetW of
           None \<Rightarrow> Threw TypeError eng
         | Some target \<Rightarrow>
             (let geometry = no_props\<lparr>
                    width := Some (Math_abs (num_sub (px target) (px start))),
                    height := Some (Math_abs (num_sub (py target) (py start)))\<rparr>;
                  isNwSe = (num_ge (px target) (px start) = num_ge (py target) (py start));
                  pr = (if connector then
                          geometry\<lparr>
                            direction := Some (if isNwSe then ''nw-se'' else ''sw-ne''),
                            p_end := Some target,
                            endConnectedId :=
                              (case snap of Some (_, i, _) \<Rightarrow> Val i | None \<Rightarrow> Null),
                            endAnchor :=
                              (case snap of Some (_, _, a) \<Rightarrow> Val a | None \<Rightarrow> Null)\<rparr>
                        else geometry)
              in seq (on_scene (updateObject n cid
                        (no_updates\<lparr>
                           u_transform := Some (no_transform\<lparr>
                              pt_x := Some (Math_min (px start) (px target)),
                              pt_y := Some (Math_min (py start) (py target))\<rparr>),
                           u_props := Some pr\<rparr>)))
                   (\<lambda>eng'. Returned (eng'\<lparr>lastMouse := (clientX e, clientY e)\<rparr>)) eng))"

text \<open>
  The rectangle that the resize branch of \<open>onPointerMove\<close> computes (lines 1261 to 1285)
  from the rectangle stored at pointer-down, the handle, and the pointer's world
  position: \<open>(x, y, width, height)\<close>.
\<close>

definition resize_rect ::
  "handle \<Rightarrow> resize_original \<Rightarrow> jsnum \<Rightarrow> jsnum \<Rightarrow> jsnum \<times> jsnum \<times> jsnum \<times> jsnum" where
  "resize_rect h orig wx wy =
     (let x = ro_x orig; y = ro_y orig; minSize = Fin 20 in
      case h of
        H_tl \<Rightarrow>
          (let width = num_sub (num_add x (ro_w orig)) wx;
               height = num_sub (num_add y (ro_h orig)) wy
           in (if num_ge width minSize then wx else x,
               if num_ge height minSize then wy else y,
               if num_ge width minSize then width else minSize,
               if num_ge height minSize then height else minSize))
      | H_tr \<Rightarrow>
          (let width = num_sub wx x;
               height = num_sub (num_add y (ro_h orig)) wy
           in (x,
               if num_ge height minSize then wy else y,
               if num_lt width minSize then minSize else width,
               if num_ge height minSize then height else minSize))
      | H_bl \<Rightarrow>
          (let width = num_sub (num_add x (ro_w orig)) wx;
               height = num_sub wy y
           in (if num_ge width minSize then wx else x,
               y,
               if num_ge width minSize then width else minSize,
               if num_lt height minSize then minSize else height))
      | H_br \<Rightarrow>
          (let width = num_sub wx x;
               height = num_sub wy y
           in (x, y,
               if num_lt width minSize then minSize else width,
               if num_lt height minSize then minSize else height)))"

definition resizing_branch ::
  "nat \<Rightarrow> dom_event \<Rightarrow> jsnum \<Rightarrow> jsnum \<Rightarrow> handle \<Rightarrow> string \<Rightarrow> resize_original \<Rightarrow> engine
    \<Rightarrow> engine outcome" where
  "resizing_branch n e wx wy h did orig eng =
     (case resize_rect h orig wx wy of
        (x, y, w', h') \<Rightarrow>
          seq (on_scene (updateObject n did
                 (no_updates\<lparr>
                    u_transform := Some (no_transform\<lparr>pt_x := Some x, pt_y := Some y\<rparr>),
                    u_props := Some (no_props\<lparr>width := Some w', height := Some h'\<rparr>)\<rparr>)))
              (\<lambda>eng'. Returned (eng'\<lparr>lastMouse := (clientX e, clientY e)\<rparr>)) eng)"

text \<open>The last part of \<open>onPointerMove\<close>: panning, or dragging an entity and its children.\<close>

definition move_child :: "nat \<Rightarrow> jsnum \<Rightarrow> jsnum \<Rightarrow> string \<Rightarrow> scene \<Rightarrow> scene outcome" where
  "move_child n dx dy childId st =
     (case getObject st childId of
        Some child \<Rightarrow>
          updateObject n childId
            (no_updates\<lparr>u_transform := Some (no_transform\<lparr>
               pt_x := Some (num_add (t_x (transform child)) dx),
               pt_y := Some (num_add (t_y (transform child)) dy)\<rparr>)\<rparr>) st
      | None \<Rightarrow> Returned st)"

definition pan_or_drag :: "nat \<Rightarrow> dom_event \<Rightarrow> jsnum \<Rightarrow> jsnum \<Rightarrow> engine \<Rightarrow> engine outcome" where
  "pan_or_drag n e wx wy eng =
     (if \<not> isPanning eng \<and> \<not> nonempty (draggedEntityId eng) then Returned eng
      else
        seq (\<lambda>eng.
               if isPanning eng then
                 Returned (set_dirty (eng\<lparr>camera := (camera eng)\<lparr>
                    cam_x := cam_x (camera eng)
                               - (clientX e - fst (lastMouse eng)) / zoom (camera eng),
                    cam_y := cam_y (camera eng)
                               - (clientY e - snd (lastMouse eng)) / zoom (camera eng)\<rparr>\<rparr>))
               else
                 (let did = the (draggedEntityId eng);
                      newX = num_sub wx (px (dragOffset eng));
                      newY = num_sub wy (py (dragOffset eng))
                  in case getObject (scene eng) did of
                       None \<Rightarrow> Threw TypeError eng
                     | Some entity \<Rightarrow>
                         (let dx = num_sub newX (t_x (transform entity));
                              dy = num_sub newY (t_y (transform entity))
                          in on_scene
                               (seq (updateObject n did
                                       (no_updates\<lparr>u_transform := Some (no_transform\<lparr>
                                          pt_x := Some newX, pt_y := Some newY\<rparr>)\<rparr>))
                                    (forEach (move_child n dx dy) (draggedChildrenIds eng)))
                               eng)))
            (\<lambda>eng'. Returned (eng'\<lparr>lastMouse := (clientX e, clientY e)\<rparr>)) eng)"

text \<open>\<open>onPointerMove\<close>.\<close>

definition onPointerMove :: "nat \<Rightarrow> dom_event \<Rightarrow> engine \<Rightarrow> engine outcome" where
  "onPointerMove n e eng =
     (let w = screenToWorld (camera eng) (clientX e) (clientY e);
          wx = Fin (fst w); wy = Fin (snd w)
      in seq (\<lambda>eng. if \<not> isPanning eng \<and> \<not> nonempty (draggedEntityId eng) \<and> \<not> isResizing eng
                     then hover_block wx wy eng else Returned eng)
             (\<lambda>eng.
                if nonempty (creatingEntityId eng) \<and> createStartPoint eng \<noteq> None then
                  creating_branch n e wx wy (the (creatingEntityId eng))
                    (the (createStartPoint eng)) eng
                else if isResizing eng \<and> resizeHandle eng \<noteq> None \<and>
                        nonempty (draggedEntityId eng) \<and> resizeOriginal eng \<noteq> None then
                  resizing_branch n e wx wy (the (resizeHandle eng))
                    (the (draggedEntityId eng)) (the (resizeOriginal eng)) eng
                else pan_or_drag n e wx wy eng) eng)"

text \<open>
  The fallback size of \<open>onPointerUp\<close>: the table \<open>fallbacks\<close>, and 100 by 100 for a type
  that the table does not list. (A type tag that names a property of \<open>Object.prototype\<close>
  is not modelled.)
\<close>

definition fallback_size :: "string option \<Rightarrow> string \<Rightarrow> real \<times> real" where
  "fallback_size preset ty =
     (if ty = ''STICKY_NOTE'' then (200, 200)
      else if ty \<in> set [''RECTANGLE'', ''ELLIPSE'', ''TRIANGLE'', ''DIAMOND'', ''LINE'', ''ARROW'']
        then (100, 100)
      else if ty = ''FRAME'' then
        (case (if nonempty preset then map_of FRAME_PRESETS (the preset) else None) of
           Some wh \<Rightarrow> wh | None \<Rightarrow> (400, 300))
      else if ty = ''TEXT'' then (250, 50)
      else (100, 100))"

text \<open>The update that snaps an entity of too small a size (lines 1330 to 1347).\<close>

definition snap_to_fallback :: "nat \<Rightarrow> string \<Rightarrow> engine \<Rightarrow> engine outcome" where
  "snap_to_fallback n cid eng =
     (case getObject (scene eng) cid of
        Some entity \<Rightarrow>
          (if (num_lt (ToNumber (width (props entity))) (Fin 10) \<or>
               num_lt (ToNumber (height (props entity))) (Fin 10)) \<and>
              \<not> (is_connector entity \<and> truthy (endConnectedId (props entity))) then
             (let fb = fallback_size (framePreset eng) (e_type entity);
                  sized = (props entity)\<lparr>width := Some (Fin (fst fb)),
                                          height := Some (Fin (snd fb))\<rparr>;
                  propsToUpdate =
                    (if is_connector entity then
                       sized\<lparr>p_end := Some \<lparr>px = num_add (t_x (transform entity)) (Fin (fst fb)),
                                             py = num_add (t_y (transform entity)) (Fin (snd fb))\<rparr>\<rparr>
                     else sized)
              in on_scene (updateObject n cid (no_updates\<lparr>u_props := Some propsToUpdate\<rparr>)) eng)
           else Returned eng)
      | None \<Rightarrow> Returned eng)"

text \<open>
  \<open>onPointerUp\<close>. \<open>switchTool('SELECT')\<close> creates no frame, so the identifier it would
  draw is never used.
\<close>

definition onPointerUp :: "nat \<Rightarrow> engine \<Rightarrow> engine outcome" where
  "onPointerUp n eng =
     seq (\<lambda>eng.
            if nonempty (creatingEntityId eng) then
              (let cid = the (creatingEntityId eng) in
               seq (snap_to_fallback n cid)
                 (seq (on_scene (select n cid False))
                   (seq (\<lambda>eng'. Returned (eng'\<lparr>creatingEntityId := None,
                                                createStartPoint := None\<rparr>))
                        (switchTool n [] SELECT None))) eng)
            else Returned eng)
         (\<lambda>eng'. Returned (eng'\<lparr>isPanning := False, isResizing := False,
                               resizeHandle := None, resizeOriginal := None,
                               draggedEntityId := None, draggedChildrenIds := []\<rparr>)) eng"

text \<open>
  \<open>onPointerDown\<close>. \<open>fresh\<close> is the identifier that \<open>createObject\<close> draws, should the handler
  create an entity; \<open>section_name\<close> is the string \<open>"Section " + Math.floor(Math.random() * 100)\<close>.
  The listener of REQUEST_IMAGE_UPLOAD belongs to the host component and does not touch
  the engine.
\<close>

definition toolToType :: "tool \<Rightarrow> string option" where
  "toolToType t =
     (case t of
        SELECT \<Rightarrow> None | RECT \<Rightarrow> Some ''RECTANGLE'' | STICKY \<Rightarrow> Some ''STICKY_NOTE''
      | TEXT \<Rightarrow> Some ''TEXT'' | ELLIPSE \<Rightarrow> Some ''ELLIPSE'' | TRIANGLE \<Rightarrow> Some ''TRIANGLE''
      | DIAMOND \<Rightarrow> Some ''DIAMOND'' | LINE \<Rightarrow> Some ''LINE'' | ARROW \<Rightarrow> Some ''ARROW''
      | FRAME \<Rightarrow> Some ''FRAME'')"

definition defaultProps :: "string option \<Rightarrow> string \<Rightarrow> string \<Rightarrow> props" where
  "defaultProps preset section_name ty =
     (let p = no_props\<lparr>width := Some (Fin 0), height := Some (Fin 0)\<rparr> in
      if ty = ''RECTANGLE'' then p\<lparr>color := Some ''#60a5fa''\<rparr>
      else if ty = ''STICKY_NOTE'' then p\<lparr>color := Some ''#fef08a'', p_text := Some ''New Idea!''\<rparr>
      else if ty = ''ELLIPSE'' then p\<lparr>color := Some ''#fca5a5''\<rparr>
      else if ty = ''TRIANGLE'' then p\<lparr>color := Some ''#86efac''\<rparr>
      else if ty = ''DIAMOND'' then p\<lparr>color := Some ''#d8b4fe''\<rparr>
      else if ty = ''LINE'' \<or> ty = ''ARROW'' then
        p\<lparr>color := Some ''#64748b'', direction := Some ''nw-se''\<rparr>
      else if ty = ''FRAME'' then
        p\<lparr>p_name := (if nonempty preset then preset else Some section_name)\<rparr>
      else if ty = ''TEXT'' then
        p\<lparr>p_text := Some ''Double click to edit'', color := Some ''#1e293b''\<rparr>
      else p)"

definition is_device_frame :: "entity \<Rightarrow> bool" where
  "is_device_frame o' =
     (e_type o' = ''FRAME'' \<and>
      (case p_name (props o') of
         Some nm \<Rightarrow> nm \<in> set [''Mobile'', ''Tablet'', ''Desktop'']
       | None \<Rightarrow> False))"

datatype button_hit = Text_button entity | Image_button entity

fun find_button :: "jsnum \<Rightarrow> jsnum \<Rightarrow> entity list \<Rightarrow> button_hit option" where
  "find_button wx wy [] = None"
| "find_button wx wy (frame # frames) =
     (let btnY = num_add (t_y (transform frame)) (Fin 12);
          txtBtnX = num_add (t_x (transform frame)) (Fin 12);
          imgBtnX = num_add (t_x (transform frame)) (Fin 86)
      in if num_ge wx txtBtnX \<and> num_le wx (num_add txtBtnX (Fin 66)) \<and>
            num_ge wy btnY \<and> num_le wy (num_add btnY (Fin 24)) then Some (Text_button frame)
         else if num_ge wx imgBtnX \<and> num_le wx (num_add imgBtnX (Fin 66)) \<and>
            num_ge wy btnY \<and> num_le wy (num_add btnY (Fin 24)) then Some (Image_button frame)
         else find_button wx wy frames)"

definition press_button :: "string \<Rightarrow> button_hit \<Rightarrow> scene \<Rightarrow> scene outcome" where
  "press_button fresh b =
     (case b of
        Text_button frame \<Rightarrow>
          createObject fresh ''TEXT''
            (no_props\<lparr>p_text := Some ''Device Text'', color := Some ''#1e293b'',
               width := Some (num_sub (ToNumber (width (props frame))) (Fin 24)),
               height := Some (Fin 50)\<rparr>)
            (no_transform\<lparr>pt_x := Some (num_add (t_x (transform frame)) (Fin 12)),
                           pt_y := Some (num_add (t_y (transform frame)) (Fin 60))\<rparr>)
            \<lparr>selected = None\<rparr> (Some (e_id frame))
      | Image_button frame \<Rightarrow>
          events_emit (REQUEST_IMAGE_UPLOAD (e_id frame))
            ([] :: (string \<Rightarrow> scene \<Rightarrow> scene outcome) list) (e_id frame))"

text \<open>Pointer-down on a hovered anchor: a connector starts there (lines 1044 to 1060).\<close>

definition start_connector :: "string \<Rightarrow> entity \<Rightarrow> string \<Rightarrow> engine \<Rightarrow> engine outcome" where
  "start_connector fresh hoverObj anchor eng =
     (case getObjectType (e_type hoverObj) of
        None \<Rightarrow> Threw TypeError eng
      | Some typeDef \<Rightarrow>
          (case getAnchorPoint (ot_getBBox typeDef hoverObj) anchor of
             None \<Rightarrow> Threw TypeError (eng\<lparr>createStartPoint := None\<rparr>)
           | Some p \<Rightarrow>
               seq (on_scene (createObject fresh
                      (if activeTool eng = LINE then ''LINE'' else ''ARROW'')
                      (no_props\<lparr>color := Some ''#64748b'', direction := Some ''nw-se'',
                         startConnectedId := Val (e_id hoverObj), startAnchor := Val anchor,
                         p_start := Some p\<rparr>)
                      (no_transform\<lparr>pt_x := Some (px p), pt_y := Some (py p)\<rparr>)
                      \<lparr>selected = None\<rparr> None))
                   (\<lambda>eng'. Returned (eng'\<lparr>creatingEntityId := Some fresh\<rparr>))
                   (eng\<lparr>createStartPoint := Some p\<rparr>)))"

text \<open>Pointer-down with a creating tool (lines 1068 to 1087).\<close>

definition start_shape ::
  "string \<Rightarrow> string \<Rightarrow> string \<Rightarrow> jsnum \<Rightarrow> jsnum \<Rightarrow> engine \<Rightarrow> engine outcome" where
  "start_shape fresh section_name ty wx wy eng =
     seq (on_scene (createObject fresh ty (defaultProps (framePreset eng) section_name ty)
            (no_transform\<lparr>pt_x := Some wx, pt_y := Some wy\<rparr>) \<lparr>selected = None\<rparr> None))
         (\<lambda>eng'. Returned (eng'\<lparr>creatingEntityId := Some fresh\<rparr>))
         (eng\<lparr>createStartPoint := Some \<lparr>px = wx, py = wy\<rparr>\<rparr>)"

text \<open>
  The children that a dragged frame takes along (lines 1116 to 1136). The type FRAME is
  registered with the \<open>getBBox\<close> of \<open>RectangleType\<close>, which gives \<open>frameBox\<close>.
\<close>

definition contained_in :: "bbox \<Rightarrow> bbox \<Rightarrow> bool" where
  "contained_in box frameBox =
     (num_ge (minX box) (minX frameBox) \<and> num_le (maxX box) (maxX frameBox) \<and>
      num_ge (minY box) (minY frameBox) \<and> num_le (maxY box) (maxY frameBox))"

definition frame_children :: "scene \<Rightarrow> entity \<Rightarrow> string list" where
  "frame_children st hit =
     (if is_device_frame hit then
        map e_id (filter (\<lambda>o'. parentId o' = Some (e_id hit)) (getAllObjects st))
      else
        map e_id (filter
          (\<lambda>o'. if e_id o' = e_id hit then False
                else if parentId o' = Some (e_id hit) then True
                else if nonempty (parentId o') then False
                else if is_connector o' \<and> (truthy (startConnectedId (props o')) \<or>
                                              truthy (endConnectedId (props o'))) then False
                else (case getObjectType (e_type o') of
                        None \<Rightarrow> False
                      | Some def \<Rightarrow> contained_in (ot_getBBox def o') (Rectangle_getBBox hit)))
          (getAllObjects st)))"

text \<open>Pointer-down with the select tool (lines 1089 to 1145).\<close>

definition resize_handle_hit :: "engine \<Rightarrow> jsnum \<Rightarrow> jsnum \<Rightarrow> (entity \<times> handle) option" where
  "resize_handle_hit eng wx wy =
     (case selectedIds (scene eng) of
        [sid] \<Rightarrow>
          (case getObject (scene eng) sid of
             Some entity \<Rightarrow>
               (if \<not> is_connector entity then
                  (case getObjectType (e_type entity) of
                     Some typeDef \<Rightarrow>
                       map_option (Pair entity)
                         (getResizeHandleAt (ot_getBBox typeDef entity) wx wy (zoom (camera eng)))
                   | None \<Rightarrow> None)
                else None)
           | None \<Rightarrow> None)
      | _ \<Rightarrow> None)"

definition press_select :: "nat \<Rightarrow> jsnum \<Rightarrow> jsnum \<Rightarrow> engine \<Rightarrow> engine outcome" where
  "press_select n wx wy eng =
     (case resize_handle_hit eng wx wy of
        Some (entity, h) \<Rightarrow>
          Returned (eng\<lparr>isResizing := True, resizeHandle := Some h,
             draggedEntityId := Some (e_id entity),
             resizeOriginal := Some \<lparr>ro_x = t_x (transform entity), ro_y = t_y (transform entity),
                ro_w = ToNumber (width (props entity)), ro_h = ToNumber (height (props entity))\<rparr>\<rparr>)
      | None \<Rightarrow>
          (case hitTestGlobal (scene eng) wx wy of
             Some hit \<Rightarrow>
               seq (on_scene (select n (e_id hit) False))
                 (\<lambda>eng'.
                    if \<not> is_connector hit then
                      Returned (eng'\<lparr>draggedEntityId := Some (e_id hit),
                         dragOffset := \<lparr>px = num_sub wx (t_x (transform hit)),
                                        py = num_sub wy (t_y (transform hit))\<rparr>,
                         draggedChildrenIds :=
                           (if e_type hit = ''FRAME'' then frame_children (scene eng') hit
                            else [])\<rparr>)
                    else Returned eng') eng
           | None \<Rightarrow>
               seq (on_scene (clearSelection n))
                 (\<lambda>eng'. Returned (eng'\<lparr>isPanning := True\<rparr>)) eng))"

definition onPointerDown ::
  "nat \<Rightarrow> string \<Rightarrow> string \<Rightarrow> dom_event \<Rightarrow> engine \<Rightarrow> engine outcome" where
  "onPointerDown n fresh section_name e eng0 =
     (let eng = eng0\<lparr>lastMouse := (clientX e, clientY e)\<rparr>;
          w = screenToWorld (camera eng) (clientX e) (clientY e);
          wx = Fin (fst w); wy = Fin (snd w)
      in if button e = 1 \<or> (button e = 0 \<and> shiftKey e) then Returned (eng\<lparr>isPanning := True\<rparr>)
         else if button e \<noteq> 0 then Returned eng
         else
           (case find_button wx wy (filter is_device_frame (getAllObjects (scene eng))) of
              Some b \<Rightarrow>
                seq (on_scene (press_button fresh b))
                    (\<lambda>eng'. Returned ((set_dirty eng')\<lparr>activeTool := SELECT\<rparr>)) eng
            | None \<Rightarrow>
                (case (if nonempty (hoveredEntityId eng) \<and> nonempty (hoveredAnchor eng)
                       then getObject (scene eng) (the (hoveredEntityId eng)) else None) of
                   Some hoverObj \<Rightarrow> start_connector fresh hoverObj (the (hoveredAnchor eng)) eng
                 | None \<Rightarrow>
                     (case toolToType (activeTool eng) of
                        Some ty \<Rightarrow> start_shape fresh section_name ty wx wy eng
                      | None \<Rightarrow> press_select n wx wy eng))))"

section \<open>Export and import\<close>

text \<open>
  \<open>JSON.stringify\<close> and \<open>JSON.parse\<close> belong to the platform. A payload string is
  represented by what \<open>JSON.parse\<close> does with it: a SyntaxError (\<open>Unparseable\<close>), a value
  that is no array (\<open>Non_array\<close>), or an array, each element of which is \<open>null\<close>, a record
  with the fields and types of \<open>CanvasEntity\<close>, or any other value. \<open>JSON.stringify\<close>
  writes NaN as \<open>null\<close>, so an entity with a NaN in it does not come back as a
  \<open>CanvasEntity\<close>; every other entity of the model comes back as it was.
\<close>

datatype element = Null_element | Record entity | Other_element

datatype payload = Unparseable | Non_array | Array "element list"







text \<open>
  \<open>loadData\<close>: \<open>obj.id\<close> throws a TypeError on \<open>null\<close>; a value that is no entity is stored
  as it is, which the model does not follow.
\<close>

definition load_one :: "element \<Rightarrow> scene \<Rightarrow> scene outcome" where
  "load_one obj st =
     (case obj of
        Null_element \<Rightarrow> Threw TypeError st
      | Record e \<Rightarrow> Returned (st\<lparr>entities := AList.update (e_id e) e (entities st)\<rparr>)
      | Other_element \<Rightarrow> Untyped)"

definition loadData :: "element list \<Rightarrow> scene \<Rightarrow> scene outcome" where
  "loadData objects st = forEach load_one objects (st\<lparr>entities := []\<rparr>)"

text \<open>
  \<open>importData\<close>. The \<open>canvas-dirty\<close> event that it dispatches on the window sets \<open>isDirty\<close>,
  which is set already.
\<close>

definition importData :: "nat \<Rightarrow> payload \<Rightarrow> engine \<Rightarrow> engine outcome" where
  "importData n data =
     try_catch
       (\<lambda>eng. case data of
            Unparseable \<Rightarrow> Threw SyntaxError eng
          | Non_array \<Rightarrow> Returned eng
          | Array objects \<Rightarrow>
              seq (on_scene (loadData objects))
                (seq (on_scene (clearSelection n)) (\<lambda>eng'. Returned (set_dirty eng'))) eng)
       (\<lambda>err eng. Returned (eng\<lparr>scene := console_error err (scene eng)\<rparr>))"

section \<open>Well-formed stores\<close>

text \<open>
  The store is a \<open>Map\<close> whose keys are the identifiers of its values: \<open>createObject\<close>,
  \<open>updateObject\<close> and \<open>loadData\<close> write every entity under its own \<open>id\<close>.
\<close>

definition wf_scene :: "scene \<Rightarrow> bool" where
  "wf_scene st =
     (distinct (map fst (entities st)) \<and> (\<forall>(k, e) \<in> set (entities st). e_id e = k))"

text \<open>
  What re-routing leaves of an entity: everything of a shape, and of a connector
  everything but its stored geometry.
\<close>

definition kept :: "entity \<Rightarrow> entity \<Rightarrow> bool" where
  "kept e e' =
     (e_id e' = e_id e \<and> e_type e' = e_type e \<and> metadata e' = metadata e \<and>
      visible e' = visible e \<and> parentId e' = parentId e \<and>
      startConnectedId (props e') = startConnectedId (props e) \<and>
      endConnectedId (props e') = endConnectedId (props e) \<and>
      startAnchor (props e') = startAnchor (props e) \<and>
      endAnchor (props e') = endAnchor (props e) \<and>
      (\<not> is_connector e \<longrightarrow> e' = e))"

text \<open>
  How a state \<open>st'\<close> relates to \<open>st\<close> when connectors were re-routed in between, those
  stored under the keys \<open>ks\<close> at most.
\<close>

definition connector_event :: "event \<Rightarrow> bool" where
  "connector_event ev = (case ev of ENTITY_UPDATED a b \<Rightarrow> is_connector a | _ \<Rightarrow> False)"

definition routed :: "string set \<Rightarrow> scene \<Rightarrow> scene \<Rightarrow> bool" where
  "routed ks st st' =
     (map fst (entities st') = map fst (entities st) \<and>
      selectedIds st' = selectedIds st \<and>
      (\<forall>k. k \<notin> ks \<longrightarrow> getObject st' k = getObject st k) \<and>
      (\<forall>k e. getObject st k = Some e \<longrightarrow> (\<exists>e'. getObject st' k = Some e' \<and> kept e e')) \<and>
      (\<exists>evs. emitted st' = emitted st @ evs \<and> list_all connector_event evs))"

section \<open>Concrete inputs\<close>

text \<open>A rectangle at the origin, 100 by 100.\<close>

definition box0 :: entity where
  "box0 = \<lparr>e_id = ''a'', e_type = ''RECTANGLE'',
     transform = \<lparr>t_x = Fin 0, t_y = Fin 0, scaleX = Fin 1, scaleY = Fin 1, rotation = Fin 0\<rparr>,
     props = no_props\<lparr>width := Some (Fin 100), height := Some (Fin 100)\<rparr>,
     metadata = \<lparr>selected = None\<rparr>, visible = True, parentId = None\<rparr>"

text \<open>The scene that holds this rectangle only.\<close>

definition scene0 :: scene where
  "scene0 = \<lparr>entities = [(''a'', box0)], selectedIds = [], isDirty = False, emitted = [],
     console = []\<rparr>"

text \<open>
  States used to describe what \<open>updateObject\<close> and \<open>deleteObject\<close> do. \<open>written\<close>: the new
  entity is stored and the event logged, before the listeners run. \<open>stored\<close>: the same,
  after a dispatch in which only \<open>markDirty\<close> acted. \<open>deleted\<close>: the state that
  \<open>deleteObject\<close> leaves.
\<close>

definition stored :: "scene \<Rightarrow> string \<Rightarrow> entity \<Rightarrow> entity \<Rightarrow> scene" where
  "stored st k old new =
     st\<lparr>entities := AList.update k new (entities st),
        emitted := emitted st @ [ENTITY_UPDATED old new], isDirty := True\<rparr>"

definition written :: "scene \<Rightarrow> string \<Rightarrow> entity \<Rightarrow> entity \<Rightarrow> scene" where
  "written st k old new =
     st\<lparr>entities := AList.update k new (entities st),
        emitted := emitted st @ [ENTITY_UPDATED old new]\<rparr>"

definition deleted :: "scene \<Rightarrow> string \<Rightarrow> entity \<Rightarrow> scene" where
  "deleted st i e =
     st\<lparr>entities := AList.delete i (entities st),
        selectedIds := removeAll (e_id e) (selectedIds st),
        emitted := emitted st @ ENTITY_DELETED e #
          (if e_id e \<in> set (selectedIds st)
           then [SELECTION_CHANGED (removeAll (e_id e) (selectedIds st))] else []),
        isDirty := True\<rparr>"

text \<open>
  An idle engine on that scene; a wheel event at (100, 100) that zooms in by 10 per cent;
  the engine while the rectangle is resized by its bottom-right handle; a pointer event at
  (5, 5).
\<close>

definition engine0 :: engine where
  "engine0 = \<lparr>scene = scene0, camera = \<lparr>cam_x = 0, cam_y = 0, zoom = 1\<rparr>,
     activeTool = SELECT, canvas_width = 800, canvas_height = 600, isPanning = False,
     lastMouse = (0, 0), draggedEntityId = None, draggedChildrenIds = [],
     dragOffset = \<lparr>px = Fin 0, py = Fin 0\<rparr>, creatingEntityId = None,
     createStartPoint = None, isResizing = False, resizeHandle = None,
     resizeOriginal = None, framePreset = None, hoveredEntityId = None,
     hoveredAnchor = None\<rparr>"

definition wheel0 :: dom_event where
  "wheel0 = \<lparr>button = 0, shiftKey = False, ctrlKey = True, clientX = 100, clientY = 100,
     deltaX = 0, deltaY = - 10\<rparr>"

definition resizing0 :: engine where
  "resizing0 = engine0\<lparr>isResizing := True, resizeHandle := Some H_br,
     draggedEntityId := Some ''a'',
     resizeOriginal := Some \<lparr>ro_x = Fin 0, ro_y = Fin 0, ro_w = Fin 100, ro_h = Fin 100\<rparr>\<rparr>"

definition move0 :: dom_event where
  "move0 = \<lparr>button = 0, shiftKey = False, ctrlKey = False, clientX = 5, clientY = 5,
     deltaX = 0, deltaY = 0\<rparr>"

text \<open>
  The operations of the selection invariant: the three operations of the selection
  module and the deletion of an entity, run one after the other.
\<close>

datatype sel_op = Select string bool | ClearSelection | DeleteSelected | DeleteObject string

definition run_op :: "nat \<Rightarrow> sel_op \<Rightarrow> scene \<Rightarrow> scene outcome" where
  "run_op n op =
     (case op of
        Select i multi \<Rightarrow> select n i multi
      | ClearSelection \<Rightarrow> clearSelection n
      | DeleteSelected \<Rightarrow> deleteSelected n
      | DeleteObject i \<Rightarrow> deleteObject i)"

text \<open>
  A store populated by calls of \<open>createObject\<close> with the default metadata \<open>{}\<close>, from the
  state of a new engine; each call is given by the identifier drawn, the type, the props,
  the transform and the parent.
\<close>

definition new_scene :: scene where
  "new_scene = \<lparr>entities = [], selectedIds = [], isDirty = True, emitted = [], console = []\<rparr>"

definition populate ::
  "(string \<times> string \<times> props \<times> ptransform \<times> string option) list \<Rightarrow> scene outcome" where
  "populate specs =
     forEach (\<lambda>(i, ty, pr, tr, parent). createObject i ty pr tr \<lparr>selected = None\<rparr> parent)
       specs new_scene"

text \<open>The selection mirror: an entity is flagged exactly when its identifier is selected.\<close>

definition mirror :: "scene \<Rightarrow> bool" where
  "mirror st =
     (\<forall>e \<in> set (getAllObjects st).
        (selected (metadata e) = Some True) = (e_id e \<in> set (selectedIds st)))"

definition sel_inv :: "scene \<Rightarrow> bool" where
  "sel_inv st =
     (wf_scene st \<and>
      (\<forall>k e. getObject st k = Some e \<longrightarrow>
         (selected (metadata e) = Some True) = (k \<in> set (selectedIds st))))"

definition unselected :: "scene \<Rightarrow> bool" where
  "unselected st = (wf_scene st \<and> selectedIds st = [] \<and>
     (\<forall>k e. getObject st k = Some e \<longrightarrow> selected (metadata e) = None))"

text \<open>
  How a state relates to an earlier one when the entities stored under the keys \<open>S\<close> had
  their flag set to \<open>b\<close>, and nothing else of the selection changed.
\<close>

definition flagged :: "bool \<Rightarrow> string set \<Rightarrow> scene \<Rightarrow> scene \<Rightarrow> bool" where
  "flagged b S st st' =
     (selectedIds st' = selectedIds st \<and>
      (\<forall>k. getObject st k = None \<longrightarrow> getObject st' k = None) \<and>
      (\<forall>k e. getObject st k = Some e \<longrightarrow>
         (\<exists>e'. getObject st' k = Some e' \<and>
            selected (metadata e') = (if k \<in> S then Some b else selected (metadata e)))))"

definition specs0 :: "(string \<times> string \<times> props \<times> ptransform \<times> string option) list" where
  "specs0 = [(''a'', ''RECTANGLE'', no_props, no_transform, None),
             (''b'', ''ELLIPSE'', no_props, no_transform, None)]"

definition and_then :: "'s outcome \<Rightarrow> ('s \<Rightarrow> 's outcome) \<Rightarrow> 's outcome" where
  "and_then r g = (case r of Returned s \<Rightarrow> g s | r' \<Rightarrow> r')"

definition returned :: "'s outcome \<Rightarrow> 's option" where
  "returned r = (case r of Returned s \<Rightarrow> Some s | _ \<Rightarrow> None)"

definition flags :: "scene \<Rightarrow> (string \<times> bool option) list" where
  "flags st = map (\<lambda>e. (e_id e, selected (metadata e))) (getAllObjects st)"

text \<open>
  An anchor that is typed as \<open>AnchorPosition\<close>: missing, \<open>null\<close>, or one of the five
  positions. \<open>updateLineConnections\<close> reads the anchor of an end only when the end is
  connected to an entity of the store whose type is registered: \<open>end_ok\<close> says that the
  anchor is typed in that case. \<open>anchors_ok st i\<close>: both ends of every connector attached
  to \<open>i\<close> are so.
\<close>

definition valid_anchor :: "string nullable \<Rightarrow> bool" where
  "valid_anchor a = (or_else a ''c'' \<in> set [''t'', ''r'', ''b'', ''l'', ''c''])"

definition end_ok :: "scene \<Rightarrow> string nullable \<Rightarrow> string nullable \<Rightarrow> bool" where
  "end_ok st connectedId anchor =
     (case connectedId of
        Val j \<Rightarrow>
          (case getObject st j of
             Some obj \<Rightarrow> j \<noteq> [] \<and> getObjectType (e_type obj) \<noteq> None \<longrightarrow> valid_anchor anchor
           | None \<Rightarrow> True)
      | _ \<Rightarrow> True)"

definition anchors_ok :: "scene \<Rightarrow> string \<Rightarrow> bool" where
  "anchors_ok st i =
     (\<forall>l \<in> set (getAllObjects st).
        attached_to i l \<longrightarrow>
          end_ok st (startConnectedId (props l)) (startAnchor (props l)) \<and>
          end_ok st (endConnectedId (props l)) (endAnchor (props l)))"

text \<open>
  A connector \<open>l\<close> that is routed to the entity \<open>target\<close> with identifier \<open>i\<close>: an end that
  is connected to \<open>i\<close> is stored as the anchor point on the bounding box of \<open>target\<close>, when
  the type of \<open>target\<close> is registered; and the transform and the size are those of the
  rectangle spanned by the two stored end points.
\<close>

definition rerouted :: "string \<Rightarrow> entity \<Rightarrow> entity \<Rightarrow> bool" where
  "rerouted i target l =
     ((startConnectedId (props l) = Val i \<longrightarrow>
         (\<forall>d. getObjectType (e_type target) = Some d \<longrightarrow>
            p_start (props l)
              = getAnchorPoint (ot_getBBox d target) (or_else (startAnchor (props l)) ''c''))) \<and>
      (endConnectedId (props l) = Val i \<longrightarrow>
         (\<forall>d. getObjectType (e_type target) = Some d \<longrightarrow>
            p_end (props l)
              = getAnchorPoint (ot_getBBox d target) (or_else (endAnchor (props l)) ''c''))) \<and>
      (\<exists>s e. p_start (props l) = Some s \<and> p_end (props l) = Some e \<and>
         t_x (transform l) = Math_min (px s) (px e) \<and>
         t_y (transform l) = Math_min (py s) (py e) \<and>
         width (props l) = Some (Math_abs (num_sub (px e) (px s))) \<and>
         height (props l) = Some (Math_abs (num_sub (py e) (py s)))))"

text \<open>
  An arrow from the right anchor of the rectangle to the free point (300, 200), and the
  scene of the rectangle and this arrow; the update that moves the rectangle to (50, 20).
\<close>

definition arrow0 :: entity where
  "arrow0 = \<lparr>e_id = ''l'', e_type = ''ARROW'',
     transform = \<lparr>t_x = Fin 100, t_y = Fin 50, scaleX = Fin 1, scaleY = Fin 1, rotation = Fin 0\<rparr>,
     props = no_props\<lparr>width := Some (Fin 200), height := Some (Fin 150),
       p_start := Some \<lparr>px = Fin 100, py = Fin 50\<rparr>, p_end := Some \<lparr>px = Fin 300, py = Fin 200\<rparr>,
       startConnectedId := Val ''a'', startAnchor := Val ''r'', endConnectedId := Null,
       endAnchor := Null, direction := Some ''nw-se'', color := Some ''#64748b''\<rparr>,
     metadata = \<lparr>selected = None\<rparr>, visible = True, parentId = None\<rparr>"

definition scene1 :: scene where
  "scene1 = \<lparr>entities = [(''a'', box0), (''l'', arrow0)], selectedIds = [], isDirty = False,
     emitted = [], console = []\<rparr>"

text \<open>
  A second arrow from the rectangle, whose \<open>startAnchor\<close> is the string \<open>'x'\<close>, and the scene
  in which it is stored before the first arrow. A rectangle whose identifier is the empty
  string, an arrow attached to it, and their scene.
\<close>

definition arrow_x :: entity where
  "arrow_x = arrow0\<lparr>e_id := ''k'', props := (props arrow0)\<lparr>startAnchor := Val ''x''\<rparr>\<rparr>"

definition scene_x :: scene where
  "scene_x = scene1\<lparr>entities := [(''a'', box0), (''k'', arrow_x), (''l'', arrow0)]\<rparr>"

definition box_empty :: entity where
  "box_empty = box0\<lparr>e_id := []\<rparr>"

definition arrow_empty :: entity where
  "arrow_empty = arrow0\<lparr>props := (props arrow0)\<lparr>startConnectedId := Val []\<rparr>\<rparr>"

definition scene_empty :: scene where
  "scene_empty = scene1\<lparr>entities := [([], box_empty), (''l'', arrow_empty)]\<rparr>"

definition move_to_50_20 :: updates where
  "move_to_50_20 = no_updates\<lparr>u_transform :=
     Some (no_transform\<lparr>pt_x := Some (Fin 50), pt_y := Some (Fin 20)\<rparr>)\<rparr>"

definition geometry ::
  "entity \<Rightarrow> string \<times> jsnum \<times> jsnum \<times> jsnum option \<times> jsnum option \<times> point option \<times> point option"
  where
  "geometry e = (e_id e, t_x (transform e), t_y (transform e), width (props e),
     height (props e), p_start (props e), p_end (props e))"

text \<open>The store that \<open>loadData\<close> builds from an array of records.\<close>

definition loaded :: "entity list \<Rightarrow> (string \<times> entity) list" where
  "loaded es = fold (\<lambda>e. AList.update (e_id e) e) es []"

text \<open>The per-entity events: those of the life cycle of an entity.\<close>

definition entity_event :: "event \<Rightarrow> bool" where
  "entity_event ev =
     (case ev of ENTITY_CREATED a \<Rightarrow> True | ENTITY_UPDATED a b \<Rightarrow> True
      | ENTITY_DELETED a \<Rightarrow> True | _ \<Rightarrow> False)"

text \<open>
  The engine in which the rectangle is selected, and the rectangle as it is then stored
  and as it is after a deselection.
\<close>

definition selected_box :: entity where
  "selected_box = box0\<lparr>metadata := \<lparr>selected = Some True\<rparr>\<rparr>"

definition deselected_box :: entity where
  "deselected_box = box0\<lparr>metadata := \<lparr>selected = Some False\<rparr>\<rparr>"

definition engine_sel :: engine where
  "engine_sel = engine0\<lparr>scene := scene0\<lparr>entities := [(''a'', selected_box)],
     selectedIds := [''a'']\<rparr>\<rparr>"

text \<open>
  Two stored versions of an entity with the same identifier, type, transform and props:
  they differ in the metadata, the visibility or the parent at most.
\<close>

definition same_shape :: "entity \<Rightarrow> entity \<Rightarrow> bool" where
  "same_shape e e' =
     (e_id e' = e_id e \<and> e_type e' = e_type e \<and> transform e' = transform e \<and>
      props e' = props e)"

text \<open>The connectors that an update of the entity \<open>i\<close> re-routes: those attached to it.\<close>

definition attached_keys :: "scene \<Rightarrow> string \<Rightarrow> string set" where
  "attached_keys st i = {k. k \<noteq> i \<and> (\<exists>l. getObject st k = Some l \<and> attached_to i l)}"

text \<open>The condition under which \<open>onPointerUp\<close> replaces the size of the created entity.\<close>

definition snaps :: "entity \<Rightarrow> bool" where
  "snaps entity =
     ((num_lt (ToNumber (width (props entity))) (Fin 10) \<or>
       num_lt (ToNumber (height (props entity))) (Fin 10)) \<and>
      \<not> (is_connector entity \<and> truthy (endConnectedId (props entity))))"

text \<open>
  An engine with the rectangle tool on an empty scene, and a pointer-down at (0, 0); the
  rectangle ''r'' as pointer-down creates it and as the move to (5, 5) leaves it; the
  engine after that pointer-down and that move.
\<close>

definition drawing0 :: engine where
  "drawing0 = engine0\<lparr>scene := new_scene, activeTool := RECT\<rparr>"

definition press0 :: dom_event where
  "press0 = \<lparr>button = 0, shiftKey = False, ctrlKey = False, clientX = 0, clientY = 0,
     deltaX = 0, deltaY = 0\<rparr>"

definition rect_new :: entity where
  "rect_new = \<lparr>e_id = ''r'', e_type = ''RECTANGLE'',
     transform = \<lparr>t_x = Fin 0, t_y = Fin 0, scaleX = Fin 1, scaleY = Fin 1, rotation = Fin 0\<rparr>,
     props = no_props\<lparr>width := Some (Fin 0), height := Some (Fin 0),
       color := Some ''#60a5fa''\<rparr>,
     metadata = \<lparr>selected = None\<rparr>, visible = True, parentId = None\<rparr>"

definition rect_dragged :: entity where
  "rect_dragged = rect_new\<lparr>props := (props rect_new)\<lparr>width := Some (Fin 5),
     height := Some (Fin 5)\<rparr>\<rparr>"

definition creating_rect :: engine where
  "creating_rect = drawing0\<lparr>
     scene := new_scene\<lparr>entities := [(''r'', rect_dragged)],
       emitted := [ENTITY_CREATED rect_new, ENTITY_UPDATED rect_new rect_dragged]\<rparr>,
     lastMouse := (5, 5), creatingEntityId := Some ''r'',
     createStartPoint := Some \<lparr>px = Fin 0, py = Fin 0\<rparr>\<rparr>"

text \<open>
  The pointer events of a connector drawn from the left anchor (0, 50) of the selected
  rectangle to (-9, 50); the arrow ''l'' as pointer-down creates it and as the move leaves
  it; the engine after the hover, the pointer-down and the move.
\<close>

definition hover_l :: dom_event where
  "hover_l = \<lparr>button = 0, shiftKey = False, ctrlKey = False, clientX = 0, clientY = 50,
     deltaX = 0, deltaY = 0\<rparr>"

definition drag_l :: dom_event where
  "drag_l = \<lparr>button = 0, shiftKey = False, ctrlKey = False, clientX = - 9, clientY = 50,
     deltaX = 0, deltaY = 0\<rparr>"

definition arrow_new :: entity where
  "arrow_new = \<lparr>e_id = ''l'', e_type = ''ARROW'',
     transform = \<lparr>t_x = Fin 0, t_y = Fin 50, scaleX = Fin 1, scaleY = Fin 1, rotation = Fin 0\<rparr>,
     props = no_props\<lparr>color := Some ''#64748b'', direction := Some ''nw-se'',
       startConnectedId := Val ''a'', startAnchor := Val ''l'',
       p_start := Some \<lparr>px = Fin 0, py = Fin 50\<rparr>\<rparr>,
     metadata = \<lparr>selected = None\<rparr>, visible = True, parentId = None\<rparr>"

definition arrow_dragged :: entity where
  "arrow_dragged = arrow_new\<lparr>
     transform := (transform arrow_new)\<lparr>t_x := Fin (- 9)\<rparr>,
     props := (props arrow_new)\<lparr>width := Some (Fin 9), height := Some (Fin 0),
       direction := Some ''sw-ne'', p_end := Some \<lparr>px = Fin (- 9), py = Fin 50\<rparr>,
       endConnectedId := Null, endAnchor := Null\<rparr>\<rparr>"

definition creating_arrow :: engine where
  "creating_arrow = engine_sel\<lparr>
     scene := (scene engine_sel)\<lparr>entities := [(''a'', selected_box), (''l'', arrow_dragged)],
       isDirty := True,
       emitted := [ENTITY_CREATED arrow_new, ENTITY_UPDATED arrow_new arrow_dragged]\<rparr>,
     lastMouse := (- 9, 50), creatingEntityId := Some ''l'',
     createStartPoint := Some \<lparr>px = Fin 0, py = Fin 50\<rparr>\<rparr>"

section \<open>Properties: EventBus\<close>

lemma emit_never_throws: "emit cerr cbs p s \<noteq> Threw e s'"
proof (induction cbs arbitrary: s)
  case Nil
  then show ?case by (simp add: emit_def)
next
  case (Cons cb cbs)
  then show ?case
    by (cases "cb p s") (auto simp: emit_def try_catch_def)
qed

lemma emit_runs_all:
  assumes "\<forall>cb\<in>set cbs. \<forall>s. ends (cb p s)"
  shows "emit cerr cbs p s = Returned (foldl (\<lambda>s cb. after_listener cerr s (cb p s)) s cbs)"
  using assms
proof (induction cbs arbitrary: s)
  case Nil
  then show ?case by (simp add: emit_def)
next
  case (Cons cb cbs)
  have e: "ends (cb p s)" using Cons.prems by simp
  have rest: "\<forall>cb\<in>set cbs. \<forall>s. ends (cb p s)" using Cons.prems by simp
  show ?case
  proof (cases "cb p s")
    case (Returned s')
    then show ?thesis using Cons.IH[OF rest, of s'] by (simp add: emit_def try_catch_def)
  next
    case (Threw e' s')
    then show ?thesis
      using Cons.IH[OF rest, of "cerr e' s'"] by (simp add: emit_def try_catch_def)
  next
    case Out_of_fuel
    then show ?thesis using e by simp
  next
    case Untyped
    then show ?thesis using e by simp
  qed
qed

text \<open>
  C8. \<open>emit\<close> never propagates an exception to its caller; and when every subscribed
  listener ends (returns or throws) on every state, \<open>emit\<close> returns, and the state it leaves
  is the one reached by invoking every listener with the payload, in the order of
  registration, each on the state its predecessor left: a listener that throws is followed
  by \<open>console.error\<close> and then by the remaining listeners.
\<close>

theorem emit_isolates_listeners:
  "(\<forall>e s'. emit cerr cbs p s \<noteq> Threw e s') \<and>
   ((\<forall>cb\<in>set cbs. \<forall>s. ends (cb p s)) \<longrightarrow>
      emit cerr cbs p s = Returned (foldl (\<lambda>s cb. after_listener cerr s (cb p s)) s cbs))"
  by (simp add: emit_never_throws emit_runs_all)

theorem emit_isolates_listeners_witness:
  "emit (\<lambda>e s. s @ [0::nat])
     [\<lambda>p s. Returned (s @ [p]), \<lambda>p s. Threw TypeError (s @ [p + 100]),
      \<lambda>p s. Returned (s @ [p + 200])] 7 []
   = Returned [7, 107, 0, 207]"
  using emit_isolates_listeners[of "\<lambda>e s. s @ [0::nat]"
      "[\<lambda>p s. Returned (s @ [p]), \<lambda>p s. Threw TypeError (s @ [p + 100]),
        \<lambda>p s. Returned (s @ [p + 200])]" "7::nat" "[]"]
  by simp

section \<open>Properties: hit test\<close>

text \<open>
  The hit test of ObjectTypes.ts is the padded rectangle: for an entity with a finite
  position and size, a point is hit exactly when it lies within the bounding box grown by
  10 on every side.
\<close>

lemma ObjectTypes_Rectangle_hitTest_padded:
  assumes "transform e = \<lparr>t_x = Fin x, t_y = Fin y, scaleX = sx, scaleY = sy, rotation = r\<rparr>"
    and "width (props e) = Some (Fin w)" and "height (props e) = Some (Fin h)"
  shows "ObjectTypes_Rectangle_hitTest e (Fin a) (Fin b)
     = (x - 10 \<le> a \<and> a \<le> x + w + 10 \<and> y - 10 \<le> b \<and> b \<le> y + h + 10)"
  using assms by (simp add: ObjectTypes_Rectangle_hitTest_def)

text \<open>
  C4. The hit test of InfiniteCanvasApp.tsx has no padding: on the rectangle at (0, 0)
  of size 100 by 100, the point (105, 50), which is 5 units outside the bounding box and
  within the tolerance of 10, is not hit, while the hit test of ObjectTypes.ts hits it.
\<close>

theorem Rectangle_hitTest_inline_no_padding:
  "Rectangle_hitTest box0 (Fin 105) (Fin 50) = False \<and>
   ObjectTypes_Rectangle_hitTest box0 (Fin 105) (Fin 50) = True"
  by (simp add: Rectangle_hitTest_def ObjectTypes_Rectangle_hitTest_def box0_def no_props_def)

section \<open>Properties: scene manager\<close>

lemma seq_Returned [simp]: "f s = Returned s' \<Longrightarrow> seq f g s = g s'"
  by (simp add: seq_def)

lemma apply_updates_sel [simp]:
  "e_id (apply_updates e u) = e_id e"
  "e_type (apply_updates e u) = e_type e"
  "is_connector (apply_updates e u) = is_connector e"
  by (simp_all add: apply_updates_def is_connector_def)

lemma kept_refl [simp]: "kept e e"
  by (simp add: kept_def)

lemma kept_trans: "kept a b \<Longrightarrow> kept b c \<Longrightarrow> kept a c"
  by (auto simp: kept_def is_connector_def)

lemma wf_lookup: "wf_scene st \<Longrightarrow> getObject st k = Some e \<Longrightarrow> e_id e = k"
  by (auto simp: wf_scene_def getObject_def dest: map_of_SomeD)

lemma wf_member: "wf_scene st \<Longrightarrow> (k, e) \<in> set (entities st) \<Longrightarrow> getObject st k = Some e \<and> e_id e = k"
  by (auto simp: wf_scene_def getObject_def)

lemma wf_update_entities:
  assumes "wf_scene st" "e_id e = k" "entities st' = AList.update k e (entities st)"
  shows "wf_scene st'"
proof -
  have d: "distinct (map fst (AList.update k e (entities st)))"
    using assms by (simp add: wf_scene_def distinct_update)
  have "\<And>k' e'. (k', e') \<in> set (AList.update k e (entities st)) \<Longrightarrow> e_id e' = k'"
  proof -
    fix k' e' assume m: "(k', e') \<in> set (AList.update k e (entities st))"
    with d have "map_of (AList.update k e (entities st)) k' = Some e'" by simp
    then have "((map_of (entities st))(k \<mapsto> e)) k' = Some e'" by (simp add: update_conv')
    then show "e_id e' = k'"
      using assms by (auto simp: wf_scene_def split: if_splits dest: map_of_SomeD)
  qed
  with d show ?thesis using assms(3) by (auto simp: wf_scene_def)
qed

lemma getObject_entities_update:
  "entities st' = AList.update k e (entities st) \<Longrightarrow>
   getObject st' k' = (if k' = k then Some e else getObject st k')"
  by (simp add: getObject_def update_conv')

lemma keys_update_present:
  "getObject st k = Some e0 \<Longrightarrow> map fst (AList.update k e (entities st)) = map fst (entities st)"
  by (auto simp: getObject_def update_keys dest: map_of_SomeD intro: rev_image_eqI)

lemma updateObject_Suc: "updateObject (Suc n) i u st = updateObject_body (updateObject n) i u st"
  by simp

declare updateObject.simps [simp del]

text \<open>Closed form of an update of a connector.\<close>

lemma updateObject_connector:
  assumes "getObject st k = Some l" "is_connector l"
  shows "updateObject (Suc n) k u st = Returned (stored st k l (apply_updates l u))"
  using assms
  by (simp add: updateObject_Suc updateObject_body_def events_emit_def emit_def try_catch_def
      onEntityUpdated_def markDirty_def Let_def stored_def)

lemma updateObject_absent:
  "getObject st k = None \<Longrightarrow> updateObject (Suc n) k u st = Returned st"
  by (simp add: updateObject_Suc updateObject_body_def)

lemma over_field_same [simp]: "over_field a a = a"
  by (cases a) simp_all

lemma reroute_shape:
  assumes "reroute st l = Some u"
  shows "\<exists>s e. u = no_updates\<lparr>
                  u_transform := Some (no_transform\<lparr>pt_x := Some (Math_min (px s) (px e)),
                                                     pt_y := Some (Math_min (py s) (py e))\<rparr>),
                  u_props := Some ((props l)\<lparr>
                     width := Some (Math_abs (num_sub (px e) (px s))),
                     height := Some (Math_abs (num_sub (py e) (py s))),
                     p_start := Some s, p_end := Some e\<rparr>)\<rparr>"
  using assms by (auto simp: reroute_def Let_def split: option.splits)

lemma kept_reroute:
  assumes "reroute st l = Some u" "is_connector l"
  shows "kept l (apply_updates l u)"
proof -
  from reroute_shape[OF assms(1)] obtain s e where
    u: "u = no_updates\<lparr>
                  u_transform := Some (no_transform\<lparr>pt_x := Some (Math_min (px s) (px e)),
                                                     pt_y := Some (Math_min (py s) (py e))\<rparr>),
                  u_props := Some ((props l)\<lparr>
                     width := Some (Math_abs (num_sub (px e) (px s))),
                     height := Some (Math_abs (num_sub (py e) (py s))),
                     p_start := Some s, p_end := Some e\<rparr>)\<rparr>" by blast
  show ?thesis
    unfolding u using assms(2)
    by (simp add: kept_def apply_updates_def no_updates_def spread_props_def)
qed

lemma routed_refl [simp]: "routed ks st st"
  by (simp add: routed_def)

lemma routed_keys: "routed ks st st' \<Longrightarrow> map fst (entities st') = map fst (entities st)"
  and routed_selected: "routed ks st st' \<Longrightarrow> selectedIds st' = selectedIds st"
  and routed_outside: "routed ks st st' \<Longrightarrow> k \<notin> ks \<Longrightarrow> getObject st' k = getObject st k"
  by (simp_all add: routed_def)

lemma routed_kept:
  "routed ks st st' \<Longrightarrow> getObject st k = Some e \<Longrightarrow> \<exists>e'. getObject st' k = Some e' \<and> kept e e'"
  by (simp add: routed_def)

lemma routed_emitted:
  "routed ks st st' \<Longrightarrow> \<exists>evs. emitted st' = emitted st @ evs \<and> list_all connector_event evs"
  by (simp add: routed_def)

lemma routed_trans:
  assumes "routed ks st st1" "routed ks' st1 st2"
  shows "routed (ks \<union> ks') st st2"
proof -
  from routed_emitted[OF assms(1)] obtain evs where
    e1: "emitted st1 = emitted st @ evs" "list_all connector_event evs" by blast
  from routed_emitted[OF assms(2)] obtain evs' where
    e2: "emitted st2 = emitted st1 @ evs'" "list_all connector_event evs'" by blast
  have ev: "\<exists>evs. emitted st2 = emitted st @ evs \<and> list_all connector_event evs"
    using e1 e2 by (intro exI[of _ "evs @ evs'"]) simp
  have k: "\<forall>k e. getObject st k = Some e \<longrightarrow> (\<exists>e'. getObject st2 k = Some e' \<and> kept e e')"
  proof (intro allI impI)
    fix k e assume "getObject st k = Some e"
    from routed_kept[OF assms(1) this] obtain e1 where a: "getObject st1 k = Some e1" "kept e e1"
      by blast
    from routed_kept[OF assms(2) a(1)] obtain e2 where b: "getObject st2 k = Some e2" "kept e1 e2"
      by blast
    from a b show "\<exists>e'. getObject st2 k = Some e' \<and> kept e e'"
      using kept_trans by blast
  qed
  have o: "\<forall>k. k \<notin> ks \<union> ks' \<longrightarrow> getObject st2 k = getObject st k"
    using routed_outside[OF assms(1)] routed_outside[OF assms(2)] by simp
  show ?thesis
    unfolding routed_def
    using routed_keys[OF assms(1)] routed_keys[OF assms(2)]
      routed_selected[OF assms(1)] routed_selected[OF assms(2)] ev k o
    by simp
qed

lemma routed_mono: "routed ks st st' \<Longrightarrow> ks \<subseteq> ks' \<Longrightarrow> routed ks' st st'"
  by (auto simp: routed_def)

lemma stored_sel [simp]:
  "entities (stored st k l l') = AList.update k l' (entities st)"
  "selectedIds (stored st k l l') = selectedIds st"
  "emitted (stored st k l l') = emitted st @ [ENTITY_UPDATED l l']"
  "isDirty (stored st k l l') = True"
  "console (stored st k l l') = console st"
  by (simp_all add: stored_def)

lemma getObject_stored [simp]:
  "getObject (stored st k l l') k' = (if k' = k then Some l' else getObject st k')"
  by (rule getObject_entities_update) simp

lemma routed_stored:
  assumes "getObject st k = Some l" "kept l l'" "is_connector l"
  shows "routed {k} st (stored st k l l')"
  unfolding routed_def
  using assms
  by (auto simp: keys_update_present connector_event_def)

lemma wf_stored:
  assumes "wf_scene st" "e_id l' = k"
  shows "wf_scene (stored st k l l')"
  by (rule wf_update_entities[OF assms]) (simp add: stored_def)

lemma line_step_throw:
  "reroute st l = None \<Longrightarrow> updateLineConnections upd l st = Threw TypeError st"
  by (simp add: updateLineConnections_def)

lemma line_step_ok:
  assumes "reroute st l = Some u" "getObject st (e_id l) = Some l" "is_connector l"
  shows "updateLineConnections (updateObject (Suc n)) l st
          = Returned (stored st (e_id l) l (apply_updates l u))"
  using assms by (simp add: updateLineConnections_def updateObject_connector)

lemma lines_loop:
  assumes "wf_scene st" "distinct (map e_id ls)"
    and "\<forall>l\<in>set ls. getObject st (e_id l) = Some l \<and> is_connector l"
  shows "\<exists>st'. (forEach (updateLineConnections (updateObject (Suc n))) ls st = Returned st' \<or>
               forEach (updateLineConnections (updateObject (Suc n))) ls st = Threw TypeError st')
            \<and> routed (e_id ` set ls) st st' \<and> wf_scene st'"
  using assms
proof (induction ls arbitrary: st)
  case Nil
  then show ?case by simp
next
  case (Cons l ls)
  have l: "getObject st (e_id l) = Some l" "is_connector l" using Cons.prems(3) by simp_all
  show ?case
  proof (cases "reroute st l")
    case None
    then show ?thesis using Cons.prems(1) by (simp add: line_step_throw)
  next
    case (Some u)
    let ?st1 = "stored st (e_id l) l (apply_updates l u)"
    have step: "updateLineConnections (updateObject (Suc n)) l st = Returned ?st1"
      by (rule line_step_ok[OF Some l])
    have r1: "routed {e_id l} st ?st1"
      by (rule routed_stored[OF l(1) kept_reroute[OF Some l(2)] l(2)])
    have wf1: "wf_scene ?st1" by (rule wf_stored[OF Cons.prems(1)]) simp
    have rest: "\<forall>l'\<in>set ls. getObject ?st1 (e_id l') = Some l' \<and> is_connector l'"
    proof
      fix l' assume m: "l' \<in> set ls"
      then have "e_id l' \<in> e_id ` set ls" by simp
      then have "e_id l' \<noteq> e_id l" using Cons.prems(2) by auto
      then have "getObject ?st1 (e_id l') = getObject st (e_id l')"
        using r1 by (simp add: routed_def)
      then show "getObject ?st1 (e_id l') = Some l' \<and> is_connector l'"
        using Cons.prems(3) m by simp
    qed
    have d: "distinct (map e_id ls)" using Cons.prems(2) by simp
    from Cons.IH[OF wf1 d rest] obtain st' where
      st': "forEach (updateLineConnections (updateObject (Suc n))) ls ?st1 = Returned st' \<or>
            forEach (updateLineConnections (updateObject (Suc n))) ls ?st1 = Threw TypeError st'"
      "routed (e_id ` set ls) ?st1 st'" "wf_scene st'" by blast
    have "routed (e_id ` set (l # ls)) st st'"
      using routed_trans[OF r1 st'(2)] by simp
    then show ?thesis using st'(1,3) step by auto
  qed
qed

lemma emit_two:
  "emit console_error [f, markDirty] p s =
     (case f p s of
        Returned s' \<Rightarrow> Returned (s'\<lparr>isDirty := True\<rparr>)
      | Threw e s' \<Rightarrow> Returned ((console_error e s')\<lparr>isDirty := True\<rparr>)
      | Out_of_fuel \<Rightarrow> Out_of_fuel
      | Untyped \<Rightarrow> Untyped)"
  by (simp add: emit_def try_catch_def markDirty_def split: outcome.splits)

lemma routed_same_store:
  assumes "routed ks st st2" "entities st3 = entities st2" "selectedIds st3 = selectedIds st2"
    "emitted st3 = emitted st2"
  shows "routed ks st st3"
  using assms by (simp add: routed_def getObject_def)

lemma wf_same_store: "wf_scene st \<Longrightarrow> entities st' = entities st \<Longrightarrow> wf_scene st'"
  by (simp add: wf_scene_def)

lemma wf_ids: "wf_scene st \<Longrightarrow> map e_id (getAllObjects st) = map fst (entities st)"
  by (auto simp: wf_scene_def getAllObjects_def)

lemma wf_values:
  "wf_scene st \<Longrightarrow> l \<in> set (getAllObjects st) \<Longrightarrow> getObject st (e_id l) = Some l"
  by (auto simp: getAllObjects_def dest: wf_member)

lemma written_sel [simp]:
  "entities (written st k l l') = AList.update k l' (entities st)"
  "selectedIds (written st k l l') = selectedIds st"
  "emitted (written st k l l') = emitted st @ [ENTITY_UPDATED l l']"
  "isDirty (written st k l l') = isDirty st"
  "console (written st k l l') = console st"
  by (simp_all add: written_def)

lemma getObject_written [simp]:
  "getObject (written st k l l') k' = (if k' = k then Some l' else getObject st k')"
  by (rule getObject_entities_update) simp

lemma updateObject_body_present:
  "getObject st i = Some e \<Longrightarrow>
   updateObject_body upd i u st =
     emit console_error [onEntityUpdated upd, markDirty] (e, apply_updates e u)
       (written st i e (apply_updates e u))"
  by (simp add: updateObject_body_def events_emit_def written_def Let_def)

lemma updateObject_present:
  assumes "wf_scene st" "getObject st i = Some e"
  shows "\<exists>st'. updateObject (Suc (Suc n)) i u st = Returned st' \<and> wf_scene st' \<and>
           routed (- {i}) (written st i e (apply_updates e u)) st'"
proof -
  let ?e1 = "apply_updates e u"
  let ?st1 = "written st i e ?e1"
  have id: "e_id e = i" by (rule wf_lookup[OF assms])
  have wf1: "wf_scene ?st1"
    by (rule wf_update_entities[OF assms(1), of ?e1 i]) (simp_all add: id)
  have body: "updateObject (Suc (Suc n)) i u st =
      emit console_error [onEntityUpdated (updateObject (Suc n)), markDirty] (e, ?e1) ?st1"
    by (simp add: updateObject_Suc[of "Suc n"] updateObject_body_present[OF assms(2)])
  show ?thesis
  proof (cases "is_connector e")
    case True
    have "updateObject (Suc (Suc n)) i u st = Returned (?st1\<lparr>isDirty := True\<rparr>)"
      unfolding body using True by (simp add: emit_two onEntityUpdated_def)
    moreover have "wf_scene (?st1\<lparr>isDirty := True\<rparr>)"
      by (rule wf_same_store[OF wf1]) simp
    moreover have "routed (- {i}) ?st1 (?st1\<lparr>isDirty := True\<rparr>)"
      by (rule routed_same_store[OF routed_refl]) simp_all
    ultimately show ?thesis by blast
  next
    case False
    let ?ls = "filter (attached_to (e_id ?e1)) (getAllObjects ?st1)"
    have h: "onEntityUpdated (updateObject (Suc n)) (e, ?e1) ?st1
        = forEach (updateLineConnections (updateObject (Suc n))) ?ls ?st1"
      using False by (simp add: onEntityUpdated_def Let_def)
    have d: "distinct (map e_id ?ls)"
    proof -
      have "distinct (map e_id (getAllObjects ?st1))"
        using wf1 by (simp add: wf_ids wf_scene_def)
      then show ?thesis by (rule distinct_map_filter)
    qed
    have m: "\<forall>l\<in>set ?ls. getObject ?st1 (e_id l) = Some l \<and> is_connector l"
      using wf_values[OF wf1] by (auto simp: attached_to_def)
    from lines_loop[OF wf1 d m, of n] obtain st2 where
      st2: "forEach (updateLineConnections (updateObject (Suc n))) ?ls ?st1 = Returned st2 \<or>
            forEach (updateLineConnections (updateObject (Suc n))) ?ls ?st1 = Threw TypeError st2"
      "routed (e_id ` set ?ls) ?st1 st2" "wf_scene st2" by blast
    have sub: "e_id ` set ?ls \<subseteq> - {i}"
    proof
      fix k assume "k \<in> e_id ` set ?ls"
      then obtain l where l: "l \<in> set ?ls" "k = e_id l" by blast
      with m have "getObject ?st1 k = Some l" "is_connector l" by simp_all
      then show "k \<in> - {i}" using False by (auto split: if_splits)
    qed
    have r2: "routed (- {i}) ?st1 st2" by (rule routed_mono[OF st2(2) sub])
    from st2(1) show ?thesis
    proof
      assume a: "forEach (updateLineConnections (updateObject (Suc n))) ?ls ?st1 = Returned st2"
      have "updateObject (Suc (Suc n)) i u st = Returned (st2\<lparr>isDirty := True\<rparr>)"
        unfolding body using a by (simp add: emit_two h)
      moreover have "wf_scene (st2\<lparr>isDirty := True\<rparr>)"
        by (rule wf_same_store[OF st2(3)]) simp
      moreover have "routed (- {i}) ?st1 (st2\<lparr>isDirty := True\<rparr>)"
        by (rule routed_same_store[OF r2]) simp_all
      ultimately show ?thesis by blast
    next
      assume a: "forEach (updateLineConnections (updateObject (Suc n))) ?ls ?st1 = Threw TypeError st2"
      have "updateObject (Suc (Suc n)) i u st
          = Returned ((console_error TypeError st2)\<lparr>isDirty := True\<rparr>)"
        unfolding body using a by (simp add: emit_two h)
      moreover have "wf_scene ((console_error TypeError st2)\<lparr>isDirty := True\<rparr>)"
        by (rule wf_same_store[OF st2(3)]) (simp add: console_error_def)
      moreover have "routed (- {i}) ?st1 ((console_error TypeError st2)\<lparr>isDirty := True\<rparr>)"
        by (rule routed_same_store[OF r2]) (simp_all add: console_error_def)
      ultimately show ?thesis by blast
    qed
  qed
qed

lemma broadcastSelection_eq:
  "broadcastSelection st =
     Returned (st\<lparr>emitted := emitted st @ [SELECTION_CHANGED (selectedIds st)], isDirty := True\<rparr>)"
  by (simp add: broadcastSelection_def events_emit_def emit_def try_catch_def markDirty_def)

lemma deleteObject_present:
  "getObject st i = Some e \<Longrightarrow> deleteObject i st = Returned (deleted st i e)"
  by (simp add: deleteObject_def events_emit_def emit_def try_catch_def markDirty_def
      onEntityDeleted_def broadcastSelection_eq deleted_def)

lemma deleteObject_absent: "getObject st i = None \<Longrightarrow> deleteObject i st = Returned st"
  by (simp add: deleteObject_def)


lemma wf_scene0: "wf_scene scene0"
  by (simp add: wf_scene_def scene0_def box0_def)

lemmas eval_defs =
  updateObject_Suc updateObject_body_def events_emit_def emit_def try_catch_def
  onEntityUpdated_def markDirty_def Let_def getObject_def getAllObjects_def attached_to_def
  is_connector_def apply_updates_def selected_update_def no_updates_def no_props_def
  no_transform_def spread_metadata_def spread_props_def spread_transform_def
  updateLineConnections_def reroute_def resolve_end_def getObjectType_def getAnchorPoint_def
  Rectangle_getBBox_def RectangleType_def LineType_def console_error_def seq_def
  broadcastSelection_def onEntityDeleted_def deleteObject_def set_add_def select_def
  deselect_all_def clearSelection_def deleteSelected_def


section \<open>Properties: camera and resizing\<close>

text \<open>
  C7. For a wheel event with the zoom modifier held, on a camera whose zoom is not zero:
  the new zoom is \<open>zoom * (1 + (-deltaY * 0.01))\<close> clamped to the interval from 0.1 to 5, and
  the world point that \<open>screenToWorld\<close> gave for the cursor position before the update is
  mapped by \<open>worldToScreen\<close> after the update to the cursor position again, in exact
  arithmetic.
\<close>

theorem onWheel_zoom_keeps_cursor_point:
  assumes "ctrlKey e" and "zoom (camera eng) \<noteq> 0"
  shows "zoom (camera (onWheel e eng))
           = min (max (zoom (camera eng) * (1 + (- deltaY e * 0.01))) 0.1) 5 \<and>
         worldToScreen (camera (onWheel e eng))
             (fst (screenToWorld (camera eng) (clientX e) (clientY e)))
             (snd (screenToWorld (camera eng) (clientX e) (clientY e)))
           = (clientX e, clientY e)"
proof -
  let ?nz = "min (max (zoom (camera eng) * (1 + (- deltaY e * 0.01))) 0.1) 5"
  have "0 < ?nz" by (simp add: less_max_iff_disj)
  then have pos: "?nz \<noteq> 0" by simp
  have cam: "camera (onWheel e eng) =
      \<lparr>cam_x = (clientX e / zoom (camera eng) + cam_x (camera eng)) - clientX e / ?nz,
       cam_y = (clientY e / zoom (camera eng) + cam_y (camera eng)) - clientY e / ?nz,
       zoom = ?nz\<rparr>"
    using assms(1) by (simp add: onWheel_def set_dirty_def Let_def)
  show ?thesis
    unfolding cam using pos
    by (simp add: worldToScreen_def screenToWorld_def)
qed

theorem onWheel_zoom_witness:
  "ctrlKey wheel0 \<and> zoom (camera engine0) \<noteq> 0 \<and>
   zoom (camera (onWheel wheel0 engine0)) = 11 / 10 \<and>
   screenToWorld (camera engine0) 100 100 = (100, 100) \<and>
   worldToScreen (camera (onWheel wheel0 engine0)) 100 100 = (100, 100)"
  using onWheel_zoom_keeps_cursor_point[of wheel0 engine0]
  by (simp add: wheel0_def engine0_def screenToWorld_def)

lemma resize_rect_clamped:
  assumes "ro_x orig = Fin x0" "ro_y orig = Fin y0"
  shows "\<exists>x y w h. resize_rect hdl orig (Fin a) (Fin b) = (x, y, Fin w, Fin h) \<and>
            20 \<le> w \<and> 20 \<le> h \<and> (hdl = H_br \<longrightarrow> x = Fin x0 \<and> y = Fin y0)"
proof (cases "ro_w orig"; cases "ro_h orig"; cases hdl)
qed (simp_all add: resize_rect_def Let_def assms)

lemma on_scene_Returned:
  "f (scene eng) = Returned st \<Longrightarrow> on_scene f eng = Returned (eng\<lparr>scene := st\<rparr>)"
  by (simp add: on_scene_def)

lemma updateObject_result:
  assumes "wf_scene st" "getObject st i = Some e"
  shows "\<exists>st'. updateObject (Suc (Suc n)) i u st = Returned st' \<and> wf_scene st' \<and>
           getObject st' i = Some (apply_updates e u) \<and>
           map fst (entities st') = map fst (entities st) \<and>
           selectedIds st' = selectedIds st \<and>
           (\<forall>k e0. getObject st k = Some e0 \<longrightarrow> k \<noteq> i \<longrightarrow>
              (\<exists>e1. getObject st' k = Some e1 \<and> kept e0 e1))"
proof -
  from updateObject_present[OF assms, of n u] obtain st' where
    st': "updateObject (Suc (Suc n)) i u st = Returned st'" "wf_scene st'"
      "routed (- {i}) (written st i e (apply_updates e u)) st'" by blast
  have a: "getObject st' i = Some (apply_updates e u)"
    using routed_outside[OF st'(3), of i] by simp
  have b: "map fst (entities st') = map fst (entities st)"
    using routed_keys[OF st'(3)] keys_update_present[OF assms(2)] by simp
  have c: "selectedIds st' = selectedIds st"
    using routed_selected[OF st'(3)] by simp
  have d: "\<forall>k e0. getObject st k = Some e0 \<longrightarrow> k \<noteq> i \<longrightarrow>
              (\<exists>e1. getObject st' k = Some e1 \<and> kept e0 e1)"
  proof (intro allI impI)
    fix k e0 assume "getObject st k = Some e0" "k \<noteq> i"
    then have "getObject (written st i e (apply_updates e u)) k = Some e0" by simp
    from routed_kept[OF st'(3) this] show "\<exists>e1. getObject st' k = Some e1 \<and> kept e0 e1" .
  qed
  from st'(1,2) a b c d show ?thesis by blast
qed

text \<open>
  C5. In the Resizing state (a handle, a dragged entity and the rectangle stored at
  pointer-down are set, nothing is being created), on a well-formed store that holds the
  dragged entity, with a finite stored corner: for every pointer position and every
  handle, \<open>onPointerMove\<close> returns and leaves the entity with a finite width and height of at
  least 20; with the bottom-right handle its transform \<open>(x, y)\<close> is the corner stored at
  pointer-down.
\<close>

theorem resize_keeps_minimum_size:
  assumes "wf_scene (scene eng)"
    and "isResizing eng" and "resizeHandle eng = Some hdl"
    and "draggedEntityId eng = Some did" and "did \<noteq> []"
    and "resizeOriginal eng = Some orig" and "creatingEntityId eng = None"
    and "getObject (scene eng) did = Some ent"
    and "ro_x orig = Fin x0" and "ro_y orig = Fin y0"
  shows "\<exists>eng' ent' w h.
           onPointerMove (Suc (Suc n)) e eng = Returned eng' \<and>
           getObject (scene eng') did = Some ent' \<and>
           width (props ent') = Some (Fin w) \<and> height (props ent') = Some (Fin h) \<and>
           20 \<le> w \<and> 20 \<le> h \<and>
           (hdl = H_br \<longrightarrow> t_x (transform ent') = Fin x0 \<and> t_y (transform ent') = Fin y0)"
proof -
  obtain a b where w: "screenToWorld (camera eng) (clientX e) (clientY e) = (a, b)"
    by (cases "screenToWorld (camera eng) (clientX e) (clientY e)")
  from resize_rect_clamped[OF assms(9,10), of hdl a b] obtain x y w h where
    r: "resize_rect hdl orig (Fin a) (Fin b) = (x, y, Fin w, Fin h)" "20 \<le> w" "20 \<le> h"
       "hdl = H_br \<longrightarrow> x = Fin x0 \<and> y = Fin y0" by blast
  let ?u = "no_updates\<lparr>
              u_transform := Some (no_transform\<lparr>pt_x := Some x, pt_y := Some y\<rparr>),
              u_props := Some (no_props\<lparr>width := Some (Fin w), height := Some (Fin h)\<rparr>)\<rparr>"
  from updateObject_result[OF assms(1,8), of n ?u] obtain st' where
    st': "updateObject (Suc (Suc n)) did ?u (scene eng) = Returned st'"
      "getObject st' did = Some (apply_updates ent ?u)" by blast
  have run: "onPointerMove (Suc (Suc n)) e eng
      = Returned (eng\<lparr>scene := st', lastMouse := (clientX e, clientY e)\<rparr>)"
    using assms(2-7) w r(1)
      on_scene_Returned[of "updateObject (Suc (Suc n)) did ?u" eng st', OF st'(1)]
    by (simp add: onPointerMove_def resizing_branch_def Let_def)
  have "width (props (apply_updates ent ?u)) = Some (Fin w)"
    "height (props (apply_updates ent ?u)) = Some (Fin h)"
    "t_x (transform (apply_updates ent ?u)) = x" "t_y (transform (apply_updates ent ?u)) = y"
    by (simp_all add: apply_updates_def no_updates_def no_props_def no_transform_def
        spread_props_def spread_transform_def)
  then show ?thesis using run st'(2) r(2,3,4) by auto
qed

theorem resize_keeps_minimum_size_witness:
  "wf_scene (scene resizing0) \<and> isResizing resizing0 \<and> resizeHandle resizing0 = Some H_br \<and>
   draggedEntityId resizing0 = Some ''a'' \<and>
   resizeOriginal resizing0 = Some \<lparr>ro_x = Fin 0, ro_y = Fin 0, ro_w = Fin 100, ro_h = Fin 100\<rparr> \<and>
   creatingEntityId resizing0 = None \<and> getObject (scene resizing0) ''a'' = Some box0 \<and>
   (\<exists>eng' ent' w h.
      onPointerMove 2 move0 resizing0 = Returned eng' \<and>
      getObject (scene eng') ''a'' = Some ent' \<and>
      width (props ent') = Some (Fin w) \<and> height (props ent') = Some (Fin h) \<and>
      20 \<le> w \<and> 20 \<le> h \<and> t_x (transform ent') = Fin 0 \<and> t_y (transform ent') = Fin 0)"
proof -
  have two: "(2::nat) = Suc (Suc 0)" by simp
  have h: "wf_scene (scene resizing0)"
    by (simp add: resizing0_def engine0_def wf_scene0)
  have g: "getObject (scene resizing0) ''a'' = Some box0"
    by (simp add: resizing0_def engine0_def getObject_def scene0_def)
  show ?thesis
    unfolding two
    using resize_keeps_minimum_size[of resizing0 H_br "''a''"
        "\<lparr>ro_x = Fin 0, ro_y = Fin 0, ro_w = Fin 100, ro_h = Fin 100\<rparr>" box0 0 0 0 move0]
    by (simp add: h g) (simp add: resizing0_def engine0_def)
qed

section \<open>Properties: selection\<close>

lemma sel_inv_mirror: "sel_inv st \<Longrightarrow> mirror st"
  unfolding sel_inv_def mirror_def
  by (auto dest!: wf_values)

lemma createObject_eq:
  "createObject i ty pr tr md parent st =
     Returned (st\<lparr>entities := AList.update i
         \<lparr>e_id = i, e_type = ty,
          transform = spread_transform
            \<lparr>t_x = Fin 0, t_y = Fin 0, scaleX = Fin 1, scaleY = Fin 1, rotation = Fin 0\<rparr> tr,
          props = pr, metadata = md, visible = True, parentId = parent\<rparr> (entities st),
        emitted := emitted st @ [ENTITY_CREATED
         \<lparr>e_id = i, e_type = ty,
          transform = spread_transform
            \<lparr>t_x = Fin 0, t_y = Fin 0, scaleX = Fin 1, scaleY = Fin 1, rotation = Fin 0\<rparr> tr,
          props = pr, metadata = md, visible = True, parentId = parent\<rparr>],
        isDirty := True\<rparr>)"
  by (simp add: createObject_def events_emit_def emit_def try_catch_def markDirty_def Let_def)

lemma unselected_create:
  assumes "unselected st"
  shows "\<exists>st'. createObject i ty pr tr \<lparr>selected = None\<rparr> parent st = Returned st' \<and> unselected st'"
proof -
  let ?ent = "\<lparr>e_id = i, e_type = ty,
          transform = spread_transform
            \<lparr>t_x = Fin 0, t_y = Fin 0, scaleX = Fin 1, scaleY = Fin 1, rotation = Fin 0\<rparr> tr,
          props = pr, metadata = \<lparr>selected = None\<rparr>, visible = True, parentId = parent\<rparr>"
  let ?st' = "st\<lparr>entities := AList.update i ?ent (entities st),
        emitted := emitted st @ [ENTITY_CREATED ?ent], isDirty := True\<rparr>"
  have wf: "wf_scene ?st'"
    by (rule wf_update_entities[of st ?ent i]) (use assms in \<open>simp_all add: unselected_def\<close>)
  have g: "\<And>k. getObject ?st' k = (if k = i then Some ?ent else getObject st k)"
    by (rule getObject_entities_update) simp
  have "unselected ?st'"
    unfolding unselected_def using wf assms by (auto simp: g unselected_def)
  then show ?thesis by (simp add: createObject_eq)
qed

lemma unselected_populate_aux:
  "unselected st \<Longrightarrow>
   \<exists>st'. forEach (\<lambda>(i, ty, pr, tr, parent). createObject i ty pr tr \<lparr>selected = None\<rparr> parent)
           specs st = Returned st' \<and> unselected st'"
proof (induction specs arbitrary: st)
  case Nil
  then show ?case by simp
next
  case (Cons a specs)
  obtain i ty pr tr parent where a: "a = (i, ty, pr, tr, parent)" by (cases a)
  from unselected_create[OF Cons.prems, of i ty pr tr parent] obtain st1 where
    st1: "createObject i ty pr tr \<lparr>selected = None\<rparr> parent st = Returned st1" "unselected st1"
    by blast
  from Cons.IH[OF st1(2)] show ?case by (simp add: a st1(1))
qed

lemma unselected_populate: "\<exists>st. populate specs = Returned st \<and> unselected st"
  unfolding populate_def
  by (rule unselected_populate_aux) (simp add: unselected_def new_scene_def wf_scene_def getObject_def)

lemma unselected_sel_inv: "unselected st \<Longrightarrow> sel_inv st"
  by (simp add: unselected_def sel_inv_def)

lemma flagged_refl: "flagged b {} st st"
  by (simp add: flagged_def)

lemma flagged_selected: "flagged b S st st' \<Longrightarrow> selectedIds st' = selectedIds st"
  and flagged_None: "flagged b S st st' \<Longrightarrow> getObject st k = None \<Longrightarrow> getObject st' k = None"
  and flagged_Some: "flagged b S st st' \<Longrightarrow> getObject st k = Some e \<Longrightarrow>
     \<exists>e'. getObject st' k = Some e' \<and>
        selected (metadata e') = (if k \<in> S then Some b else selected (metadata e))"
  by (simp_all add: flagged_def)

lemma flagged_trans:
  assumes "flagged b S st st1" "flagged b T st1 st2"
  shows "flagged b (S \<union> T) st st2"
  unfolding flagged_def
proof (intro conjI allI impI)
  show "selectedIds st2 = selectedIds st"
    using flagged_selected[OF assms(1)] flagged_selected[OF assms(2)] by simp
next
  fix k assume "getObject st k = None"
  then show "getObject st2 k = None"
    using flagged_None[OF assms(1)] flagged_None[OF assms(2)] by simp
next
  fix k e assume "getObject st k = Some e"
  from flagged_Some[OF assms(1) this] obtain e1 where e1: "getObject st1 k = Some e1"
    "selected (metadata e1) = (if k \<in> S then Some b else selected (metadata e))" by blast
  from flagged_Some[OF assms(2) e1(1)] obtain e2 where e2: "getObject st2 k = Some e2"
    "selected (metadata e2) = (if k \<in> T then Some b else selected (metadata e1))" by blast
  show "\<exists>e'. getObject st2 k = Some e' \<and>
          selected (metadata e') = (if k \<in> S \<union> T then Some b else selected (metadata e))"
    using e1 e2 by auto
qed

lemma keys_None: "map fst (entities st') = map fst (entities st) \<Longrightarrow>
    getObject st k = None \<Longrightarrow> getObject st' k = None"
  unfolding getObject_def map_of_eq_None_iff by (metis set_map)

lemma metadata_selected_update [simp]:
  "selected (metadata (apply_updates e (selected_update b))) = Some b"
  by (simp add: apply_updates_def selected_update_def no_updates_def spread_metadata_def)

lemma flag_step:
  assumes "wf_scene st"
  shows "\<exists>st'. updateObject (Suc (Suc n)) i (selected_update b) st = Returned st' \<and>
           wf_scene st' \<and> flagged b {i} st st'"
proof (cases "getObject st i")
  case None
  have "flagged b {i} st st"
    using None by (auto simp: flagged_def)
  then show ?thesis using None assms by (simp add: updateObject_absent)
next
  case (Some e)
  from updateObject_result[OF assms Some, of n "selected_update b"] obtain st' where
    st': "updateObject (Suc (Suc n)) i (selected_update b) st = Returned st'" "wf_scene st'"
      "getObject st' i = Some (apply_updates e (selected_update b))"
      "map fst (entities st') = map fst (entities st)"
      "selectedIds st' = selectedIds st"
      "\<forall>k e0. getObject st k = Some e0 \<longrightarrow> k \<noteq> i \<longrightarrow>
              (\<exists>e1. getObject st' k = Some e1 \<and> kept e0 e1)" by blast
  have "flagged b {i} st st'"
    unfolding flagged_def
  proof (intro conjI allI impI)
    show "selectedIds st' = selectedIds st" by (rule st'(5))
  next
    fix k assume "getObject st k = None"
    then show "getObject st' k = None" by (rule keys_None[OF st'(4)])
  next
    fix k e0 assume g: "getObject st k = Some e0"
    show "\<exists>e'. getObject st' k = Some e' \<and>
            selected (metadata e') = (if k \<in> {i} then Some b else selected (metadata e0))"
    proof (cases "k = i")
      case True
      then show ?thesis using st'(3) by simp
    next
      case False
      with st'(6) g obtain e1 where "getObject st' k = Some e1" "kept e0 e1" by blast
      then show ?thesis using False by (simp add: kept_def)
    qed
  qed
  then show ?thesis using st'(1,2) by blast
qed

lemma flag_loop:
  assumes "wf_scene st"
  shows "\<exists>st'. forEach (\<lambda>sid. updateObject (Suc (Suc n)) sid (selected_update b)) sids st
             = Returned st' \<and> wf_scene st' \<and> flagged b (set sids) st st'"
  using assms
proof (induction sids arbitrary: st)
  case Nil
  then show ?case by (simp add: flagged_refl)
next
  case (Cons sid sids)
  from flag_step[OF Cons.prems, of n sid b] obtain st1 where
    st1: "updateObject (Suc (Suc n)) sid (selected_update b) st = Returned st1" "wf_scene st1"
      "flagged b {sid} st st1" by blast
  from Cons.IH[OF st1(2)] obtain st' where
    st': "forEach (\<lambda>sid. updateObject (Suc (Suc n)) sid (selected_update b)) sids st1
             = Returned st'" "wf_scene st'" "flagged b (set sids) st1 st'" by blast
  have "flagged b (set (sid # sids)) st st'"
    using flagged_trans[OF st1(3) st'(3)] by simp
  then show ?case using st1(1) st'(1,2) by simp
qed

lemma sel_inv_same:
  "sel_inv st \<Longrightarrow> entities st' = entities st \<Longrightarrow> selectedIds st' = selectedIds st
   \<Longrightarrow> sel_inv st'"
  by (simp add: sel_inv_def wf_scene_def getObject_def)

lemma broadcast_inv:
  "sel_inv st \<Longrightarrow> \<exists>st'. broadcastSelection st = Returned st' \<and> sel_inv st'"
  by (auto simp: broadcastSelection_eq elim: sel_inv_same)

lemma deselect_all_inv:
  assumes "sel_inv st"
  shows "\<exists>st'. deselect_all (Suc (Suc n)) st = Returned st' \<and> sel_inv st' \<and> selectedIds st' = []"
proof -
  have wf: "wf_scene st" using assms by (simp add: sel_inv_def)
  from flag_loop[OF wf, of n False "selectedIds st"] obtain st1 where
    st1: "forEach (\<lambda>sid. updateObject (Suc (Suc n)) sid (selected_update False))
            (selectedIds st) st = Returned st1"
      "wf_scene st1" "flagged False (set (selectedIds st)) st st1" by blast
  have none: "\<forall>k e'. getObject st1 k = Some e' \<longrightarrow> selected (metadata e') \<noteq> Some True"
  proof (intro allI impI)
    fix k e' assume g1: "getObject st1 k = Some e'"
    then obtain e where g: "getObject st k = Some e"
      using flagged_None[OF st1(3), of k] by (cases "getObject st k") auto
    from flagged_Some[OF st1(3) g] g1 have
      "selected (metadata e') = (if k \<in> set (selectedIds st) then Some False
                                  else selected (metadata e))" by auto
    moreover have "(selected (metadata e) = Some True) = (k \<in> set (selectedIds st))"
      using assms g by (simp add: sel_inv_def)
    ultimately show "selected (metadata e') \<noteq> Some True" by auto
  qed
  have "sel_inv (st1\<lparr>selectedIds := []\<rparr>)"
    unfolding sel_inv_def using st1(2) none by (simp add: wf_scene_def getObject_def)
  then show ?thesis
    using st1(1) by (simp add: deselect_all_def)
qed

lemma select_tail_inv:
  assumes "sel_inv st"
  shows "\<exists>st'. seq (\<lambda>st. Returned (st\<lparr>selectedIds := set_add i (selectedIds st)\<rparr>))
                 (seq (updateObject (Suc (Suc n)) i (selected_update True)) broadcastSelection) st
            = Returned st' \<and> sel_inv st'"
proof -
  let ?sta = "st\<lparr>selectedIds := set_add i (selectedIds st)\<rparr>"
  have wfa: "wf_scene ?sta" using assms by (simp add: sel_inv_def wf_scene_def)
  have ga: "\<And>k. getObject ?sta k = getObject st k" by (simp add: getObject_def)
  from flag_step[OF wfa, of n i True] obtain stb where
    stb: "updateObject (Suc (Suc n)) i (selected_update True) ?sta = Returned stb"
      "wf_scene stb" "flagged True {i} ?sta stb" by blast
  have inv: "sel_inv stb"
    unfolding sel_inv_def
  proof (intro conjI allI impI)
    show "wf_scene stb" by (rule stb(2))
  next
    fix k e' assume g1: "getObject stb k = Some e'"
    then obtain e where g: "getObject ?sta k = Some e"
      using flagged_None[OF stb(3), of k] by (cases "getObject ?sta k") auto
    from flagged_Some[OF stb(3) g] g1 have
      f: "selected (metadata e') = (if k \<in> {i} then Some True else selected (metadata e))"
      by auto
    have o: "(selected (metadata e) = Some True) = (k \<in> set (selectedIds st))"
      using assms g by (simp add: sel_inv_def ga)
    have s: "selectedIds stb = set_add i (selectedIds st)"
      using flagged_selected[OF stb(3)] by simp
    show "(selected (metadata e') = Some True) = (k \<in> set (selectedIds stb))"
      unfolding s f using o by (auto simp: set_add_def)
  qed
  from broadcast_inv[OF inv] obtain st' where
    "broadcastSelection stb = Returned st'" "sel_inv st'" by blast
  then show ?thesis using stb(1) by (simp add: seq_def)
qed

lemma select_inv:
  assumes "sel_inv st"
  shows "\<exists>st'. select (Suc (Suc n)) i multi st = Returned st' \<and> sel_inv st'"
proof (cases multi)
  case True
  then show ?thesis using select_tail_inv[OF assms, of i n] by (simp add: select_def seq_def)
next
  case False
  from deselect_all_inv[OF assms, of n] obtain st1 where
    st1: "deselect_all (Suc (Suc n)) st = Returned st1" "sel_inv st1" by blast
  from select_tail_inv[OF st1(2), of i n] show ?thesis
    using False st1(1) by (simp add: select_def seq_def)
qed

lemma clearSelection_inv:
  assumes "sel_inv st"
  shows "\<exists>st'. clearSelection (Suc (Suc n)) st = Returned st' \<and> sel_inv st'"
proof -
  from deselect_all_inv[OF assms, of n] obtain st1 where
    st1: "deselect_all (Suc (Suc n)) st = Returned st1" "sel_inv st1" by blast
  from broadcast_inv[OF st1(2)] show ?thesis using st1(1) by (simp add: clearSelection_def)
qed

lemma wf_delete:
  assumes "wf_scene st" "entities st' = AList.delete i (entities st)"
  shows "wf_scene st'"
proof -
  have "distinct (map fst (AList.delete i (entities st)))"
    using assms(1) by (simp add: wf_scene_def distinct_delete)
  moreover have "set (AList.delete i (entities st)) \<subseteq> set (entities st)"
    by (auto simp: AList.delete_eq)
  ultimately show ?thesis using assms by (auto simp: wf_scene_def)
qed

lemma deleteObject_inv:
  assumes "sel_inv st"
  shows "\<exists>st'. deleteObject i st = Returned st' \<and> sel_inv st'"
proof (cases "getObject st i")
  case None
  then show ?thesis using assms by (simp add: deleteObject_absent)
next
  case (Some e)
  have wf: "wf_scene st" using assms by (simp add: sel_inv_def)
  have id: "e_id e = i" by (rule wf_lookup[OF wf Some])
  have g: "\<And>k. getObject (deleted st i e) k = (if k = i then None else getObject st k)"
    by (simp add: getObject_def deleted_def delete_conv')
  have "sel_inv (deleted st i e)"
    unfolding sel_inv_def
  proof (intro conjI allI impI)
    show "wf_scene (deleted st i e)" by (rule wf_delete[OF wf]) (simp add: deleted_def)
  next
    fix k e' assume "getObject (deleted st i e) k = Some e'"
    then have "k \<noteq> i" "getObject st k = Some e'" by (auto simp: g split: if_splits)
    then show "(selected (metadata e') = Some True) = (k \<in> set (selectedIds (deleted st i e)))"
      using assms by (simp add: sel_inv_def deleted_def id)
  qed
  then show ?thesis by (simp add: deleteObject_present[OF Some])
qed

lemma delete_loop_inv:
  assumes "sel_inv st"
  shows "\<exists>st'. forEach deleteObject ids st = Returned st' \<and> sel_inv st'"
  using assms
proof (induction ids arbitrary: st)
  case Nil
  then show ?case by simp
next
  case (Cons i ids)
  from deleteObject_inv[OF Cons.prems, of i] obtain st1 where
    st1: "deleteObject i st = Returned st1" "sel_inv st1" by blast
  from Cons.IH[OF st1(2)] show ?case using st1(1) by simp
qed

lemma deleteSelected_inv:
  assumes "sel_inv st"
  shows "\<exists>st'. deleteSelected (Suc (Suc n)) st = Returned st' \<and> sel_inv st'"
proof -
  from delete_loop_inv[OF assms, of "selectedIds st"] obtain st1 where
    st1: "forEach deleteObject (selectedIds st) st = Returned st1" "sel_inv st1" by blast
  from clearSelection_inv[OF st1(2), of n] show ?thesis
    using st1(1) by (simp add: deleteSelected_def)
qed

lemma run_op_inv:
  assumes "sel_inv st"
  shows "\<exists>st'. run_op (Suc (Suc n)) op st = Returned st' \<and> sel_inv st'"
  using select_inv[OF assms] clearSelection_inv[OF assms] deleteSelected_inv[OF assms]
    deleteObject_inv[OF assms]
  by (cases op) (simp_all add: run_op_def)

lemma run_ops_inv:
  assumes "sel_inv st"
  shows "\<exists>st'. forEach (run_op (Suc (Suc n))) ops st = Returned st' \<and> sel_inv st'"
  using assms
proof (induction ops arbitrary: st)
  case Nil
  then show ?case by simp
next
  case (Cons op ops)
  from run_op_inv[OF Cons.prems, of n op] obtain st1 where
    st1: "run_op (Suc (Suc n)) op st = Returned st1" "sel_inv st1" by blast
  from Cons.IH[OF st1(2)] show ?case using st1(1) by simp
qed

text \<open>
  C10. From a store populated by \<open>createObject\<close> with the default metadata, every
  sequence of \<open>select\<close>, \<open>clearSelection\<close>, \<open>deleteSelected\<close> and \<open>deleteObject\<close> runs to its end,
  and in the state it leaves every entity of the store has \<open>metadata.selected\<close> true
  exactly when its identifier is in the set of selected identifiers.
\<close>

theorem selection_mirror_invariant:
  "\<exists>st0 st'. populate specs = Returned st0 \<and>
      forEach (run_op (Suc (Suc n))) ops st0 = Returned st' \<and>
      (\<forall>e \<in> set (getAllObjects st').
         (selected (metadata e) = Some True) = (e_id e \<in> set (selectedIds st')))"
proof -
  from unselected_populate[of specs] obtain st0 where
    st0: "populate specs = Returned st0" "unselected st0" by blast
  from run_ops_inv[OF unselected_sel_inv[OF st0(2)], of n ops] obtain st' where
    st': "forEach (run_op (Suc (Suc n))) ops st0 = Returned st'" "sel_inv st'" by blast
  from sel_inv_mirror[OF st'(2)] show ?thesis using st0(1) st'(1) by (auto simp: mirror_def)
qed

theorem selection_mirror_witness:
  "map_option (\<lambda>st. (selectedIds st, flags st))
      (returned (and_then (populate specs0)
         (forEach (run_op 2) [Select ''a'' False, Select ''b'' False])))
     = Some ([''b''], [(''a'', Some False), (''b'', Some True)]) \<and>
   (\<exists>st0 st'. populate specs0 = Returned st0 \<and>
      forEach (run_op 2) [Select ''a'' False, Select ''b'' False] st0 = Returned st' \<and>
      list_all (\<lambda>e. (selected (metadata e) = Some True) = (e_id e \<in> set (selectedIds st')))
        (getAllObjects st'))"
proof -
  have two: "(2::nat) = Suc (Suc 0)" by simp
  have a: "map_option (\<lambda>st. (selectedIds st, flags st))
      (returned (and_then (populate specs0)
         (forEach (run_op 2) [Select ''a'' False, Select ''b'' False])))
     = Some ([''b''], [(''a'', Some False), (''b'', Some True)])"
    unfolding two
    by (simp add: populate_def specs0_def createObject_def new_scene_def run_op_def eval_defs
        and_then_def returned_def flags_def)
  show ?thesis
    using a selection_mirror_invariant[of specs0 0 "[Select ''a'' False, Select ''b'' False]"]
    unfolding two list_all_iff by blast
qed

section \<open>Properties: connectors\<close>

lemma valid_anchor_point: "valid_anchor a \<Longrightarrow> getAnchorPoint b (or_else a ''c'') \<noteq> None"
  by (auto simp: valid_anchor_def getAnchorPoint_def)

lemma resolve_end_valid: "end_ok st c a \<Longrightarrow> resolve_end st c a fb \<noteq> None"
  using valid_anchor_point[of a]
  by (auto simp: resolve_end_def end_ok_def split: nullable.splits option.splits)

lemma end_ok_stored:
  "getObject st k = Some l \<Longrightarrow> e_type l' = e_type l \<Longrightarrow>
   end_ok (stored st k l l') c a = end_ok st c a"
  by (cases c) (auto simp: end_ok_def split: option.splits)

lemma end_ok_written:
  "getObject st k = Some l \<Longrightarrow> e_type l' = e_type l \<Longrightarrow>
   end_ok (written st k l l') c a = end_ok st c a"
  by (cases c) (auto simp: end_ok_def split: option.splits)

lemma reroute_valid:
  assumes "end_ok st (startConnectedId (props l)) (startAnchor (props l))"
    "end_ok st (endConnectedId (props l)) (endAnchor (props l))"
  shows "\<exists>u. reroute st l = Some u"
proof -
  let ?s0 = "(case p_start (props l) of Some p \<Rightarrow> p
                | None \<Rightarrow> \<lparr>px = t_x (transform l), py = t_y (transform l)\<rparr>)"
  let ?e0 = "(case p_end (props l) of Some p \<Rightarrow> p
                | None \<Rightarrow> \<lparr>px = num_add (t_x (transform l)) (ToNumber (width (props l))),
                           py = num_add (t_y (transform l)) (ToNumber (height (props l)))\<rparr>)"
  obtain s where s: "resolve_end st (startConnectedId (props l)) (startAnchor (props l)) ?s0 = Some s"
    using resolve_end_valid[OF assms(1)] by blast
  obtain e where e: "resolve_end st (endConnectedId (props l)) (endAnchor (props l)) ?e0 = Some e"
    using resolve_end_valid[OF assms(2)] by blast
  show ?thesis by (simp add: reroute_def Let_def s e)
qed

lemma resolve_end_connected:
  assumes "getObject st i = Some target" "i \<noteq> []" "getObjectType (e_type target) = Some d"
  shows "resolve_end st (Val i) a fb = getAnchorPoint (ot_getBBox d target) (or_else a ''c'')"
  using assms by (simp add: resolve_end_def)

lemma reroute_rerouted:
  assumes "reroute st l = Some u" "getObject st i = Some target" "i \<noteq> []"
  shows "rerouted i target (apply_updates l u)"
proof -
  let ?s0 = "(case p_start (props l) of Some p \<Rightarrow> p
                | None \<Rightarrow> \<lparr>px = t_x (transform l), py = t_y (transform l)\<rparr>)"
  let ?e0 = "(case p_end (props l) of Some p \<Rightarrow> p
                | None \<Rightarrow> \<lparr>px = num_add (t_x (transform l)) (ToNumber (width (props l))),
                           py = num_add (t_y (transform l)) (ToNumber (height (props l)))\<rparr>)"
  from assms(1) obtain s e where
    s: "resolve_end st (startConnectedId (props l)) (startAnchor (props l)) ?s0 = Some s" and
    e: "resolve_end st (endConnectedId (props l)) (endAnchor (props l)) ?e0 = Some e" and
    u: "u = no_updates\<lparr>
                  u_transform := Some (no_transform\<lparr>pt_x := Some (Math_min (px s) (px e)),
                                                     pt_y := Some (Math_min (py s) (py e))\<rparr>),
                  u_props := Some ((props l)\<lparr>
                     width := Some (Math_abs (num_sub (px e) (px s))),
                     height := Some (Math_abs (num_sub (py e) (py s))),
                     p_start := Some s, p_end := Some e\<rparr>)\<rparr>"
    by (auto simp: reroute_def Let_def split: option.splits)
  have pr: "p_start (props (apply_updates l u)) = Some s"
    "p_end (props (apply_updates l u)) = Some e"
    "width (props (apply_updates l u)) = Some (Math_abs (num_sub (px e) (px s)))"
    "height (props (apply_updates l u)) = Some (Math_abs (num_sub (py e) (py s)))"
    "startConnectedId (props (apply_updates l u)) = startConnectedId (props l)"
    "endConnectedId (props (apply_updates l u)) = endConnectedId (props l)"
    "startAnchor (props (apply_updates l u)) = startAnchor (props l)"
    "endAnchor (props (apply_updates l u)) = endAnchor (props l)"
    unfolding u by (simp_all add: apply_updates_def no_updates_def spread_props_def)
  have tr: "t_x (transform (apply_updates l u)) = Math_min (px s) (px e)"
    "t_y (transform (apply_updates l u)) = Math_min (py s) (py e)"
    unfolding u
    by (simp_all add: apply_updates_def no_updates_def no_transform_def spread_transform_def)
  have a: "startConnectedId (props l) = Val i \<longrightarrow>
         (\<forall>d. getObjectType (e_type target) = Some d \<longrightarrow>
            Some s = getAnchorPoint (ot_getBBox d target) (or_else (startAnchor (props l)) ''c''))"
    using s resolve_end_connected[OF assms(2,3)] by auto
  have b: "endConnectedId (props l) = Val i \<longrightarrow>
         (\<forall>d. getObjectType (e_type target) = Some d \<longrightarrow>
            Some e = getAnchorPoint (ot_getBBox d target) (or_else (endAnchor (props l)) ''c''))"
    using e resolve_end_connected[OF assms(2,3)] by auto
  show ?thesis
    unfolding rerouted_def pr using a b tr by simp
qed

lemma routing_loop:
  assumes "wf_scene st" "distinct (map e_id ls)"
    and "\<forall>l\<in>set ls. getObject st (e_id l) = Some l \<and> is_connector l \<and>
           end_ok st (startConnectedId (props l)) (startAnchor (props l)) \<and>
           end_ok st (endConnectedId (props l)) (endAnchor (props l))"
    and "getObject st i = Some target" "\<not> is_connector target" "i \<noteq> []"
  shows "\<exists>st'. forEach (updateLineConnections (updateObject (Suc n))) ls st = Returned st' \<and>
           routed (e_id ` set ls) st st' \<and> wf_scene st' \<and>
           (\<forall>l\<in>set ls. \<exists>l'. getObject st' (e_id l) = Some l' \<and> rerouted i target l')"
  using assms
proof (induction ls arbitrary: st)
  case Nil
  then show ?case by simp
next
  case (Cons l ls)
  have l: "getObject st (e_id l) = Some l" "is_connector l"
    "end_ok st (startConnectedId (props l)) (startAnchor (props l))"
    "end_ok st (endConnectedId (props l)) (endAnchor (props l))"
    using Cons.prems(3) by simp_all
  from reroute_valid[OF l(3,4)] obtain u where u: "reroute st l = Some u" by blast
  let ?l1 = "apply_updates l u"
  let ?st1 = "stored st (e_id l) l ?l1"
  have step: "updateLineConnections (updateObject (Suc n)) l st = Returned ?st1"
    by (rule line_step_ok[OF u l(1,2)])
  have r1: "routed {e_id l} st ?st1"
    by (rule routed_stored[OF l(1) kept_reroute[OF u l(2)] l(2)])
  have wf1: "wf_scene ?st1" by (rule wf_stored[OF Cons.prems(1)]) simp
  have q1: "rerouted i target ?l1" by (rule reroute_rerouted[OF u Cons.prems(4,6)])
  have ne: "e_id l \<noteq> i" using l(1,2) Cons.prems(4,5) by auto
  have notin: "e_id l \<notin> e_id ` set ls" using Cons.prems(2) by simp
  have ok1: "end_ok ?st1 c a = end_ok st c a" for c a
    by (rule end_ok_stored[OF l(1)]) simp
  have rest: "\<forall>l'\<in>set ls. getObject ?st1 (e_id l') = Some l' \<and> is_connector l' \<and>
           end_ok ?st1 (startConnectedId (props l')) (startAnchor (props l')) \<and>
           end_ok ?st1 (endConnectedId (props l')) (endAnchor (props l'))"
  proof
    fix l' assume m: "l' \<in> set ls"
    then have "e_id l' \<in> e_id ` set ls" by simp
    then have "e_id l' \<noteq> e_id l" using notin by auto
    then have "getObject ?st1 (e_id l') = getObject st (e_id l')" by simp
    then show "getObject ?st1 (e_id l') = Some l' \<and> is_connector l' \<and>
           end_ok ?st1 (startConnectedId (props l')) (startAnchor (props l')) \<and>
           end_ok ?st1 (endConnectedId (props l')) (endAnchor (props l'))"
      unfolding ok1 using Cons.prems(3) m by simp
  qed
  have d: "distinct (map e_id ls)" using Cons.prems(2) by simp
  have t1: "getObject ?st1 i = Some target" using ne Cons.prems(4) by simp
  from Cons.IH[OF wf1 d rest t1 Cons.prems(5,6)] obtain st' where
    st': "forEach (updateLineConnections (updateObject (Suc n))) ls ?st1 = Returned st'"
      "routed (e_id ` set ls) ?st1 st'" "wf_scene st'"
      "\<forall>l\<in>set ls. \<exists>l'. getObject st' (e_id l) = Some l' \<and> rerouted i target l'" by blast
  have r: "routed (e_id ` set (l # ls)) st st'"
    using routed_trans[OF r1 st'(2)] by simp
  have "getObject st' (e_id l) = Some ?l1"
    using routed_outside[OF st'(2) notin] by simp
  then have "\<forall>l0\<in>set (l # ls). \<exists>l'. getObject st' (e_id l0) = Some l' \<and> rerouted i target l'"
    using q1 st'(4) by simp
  then show ?case using step st'(1,3) r by simp
qed

lemma updateObject_shape:
  assumes "getObject st i = Some e" "\<not> is_connector e" "e_id e = i"
  shows "updateObject (Suc (Suc n)) i u st =
     (case forEach (updateLineConnections (updateObject (Suc n)))
             (filter (attached_to i) (getAllObjects (written st i e (apply_updates e u))))
             (written st i e (apply_updates e u)) of
        Returned s \<Rightarrow> Returned (s\<lparr>isDirty := True\<rparr>)
      | Threw err s \<Rightarrow> Returned ((console_error err s)\<lparr>isDirty := True\<rparr>)
      | Out_of_fuel \<Rightarrow> Out_of_fuel
      | Untyped \<Rightarrow> Untyped)"
  using assms(2,3)
  by (simp add: updateObject_Suc[of "Suc n"] updateObject_body_present[OF assms(1)] emit_two
      onEntityUpdated_def Let_def)

lemma getObject_value: "getObject st k = Some e \<Longrightarrow> e \<in> set (getAllObjects st)"
  by (auto simp: getObject_def getAllObjects_def dest!: map_of_SomeD intro: rev_image_eqI)

lemma values_written:
  assumes "wf_scene st" "getObject st i = Some e" "e_id e' = i"
    and "l \<in> set (getAllObjects (written st i e e'))"
  shows "l = e' \<or> l \<in> set (getAllObjects st)"
proof -
  have wf1: "wf_scene (written st i e e')"
    by (rule wf_update_entities[OF assms(1,3)]) simp
  from wf_values[OF wf1 assms(4)] have "getObject (written st i e e') (e_id l) = Some l" .
  then have "l = e' \<or> getObject st (e_id l) = Some l" by (simp split: if_splits)
  then show ?thesis using getObject_value by blast
qed

lemma keys_Some:
  assumes "map fst (entities st') = map fst (entities st)" "getObject st' k = Some e'"
  shows "\<exists>e. getObject st k = Some e"
  using keys_None[OF assms(1), of k] assms(2) by (cases "getObject st k") auto

text \<open>
  C1. On a well-formed store, an update of an entity that is no LINE or ARROW, whose
  identifier is not the empty string, and to which only connectors with typed anchors are
  attached (at each end that is connected to an entity of the store of a registered type),
  returns, and when it has returned every LINE or ARROW of the store whose
  \<open>startConnectedId\<close> or \<open>endConnectedId\<close> is the identifier of the updated entity is routed to
  the updated entity as it is now stored: the end connected to it is the anchor point
  (\<open>startAnchor\<close> or \<open>endAnchor\<close>, \<open>'c'\<close> by default) on its bounding box, when its type is
  registered; the transform of the connector is the minimum of its two stored end points
  in each coordinate; and its width and height are the absolute differences of their
  coordinates.
\<close>

theorem connectors_rerouted_on_update:
  assumes "wf_scene st" and "anchors_ok st i"
    and "getObject st i = Some ent" and "\<not> is_connector ent" and "i \<noteq> []"
  shows "\<exists>st'. updateObject (Suc (Suc n)) i u st = Returned st' \<and>
           getObject st' i = Some (apply_updates ent u) \<and>
           (\<forall>l \<in> set (getAllObjects st').
              attached_to i l \<longrightarrow> rerouted i (apply_updates ent u) l)"
proof -
  let ?e1 = "apply_updates ent u"
  let ?st1 = "written st i ent ?e1"
  let ?ls = "filter (attached_to i) (getAllObjects ?st1)"
  have id: "e_id ent = i" by (rule wf_lookup[OF assms(1,3)])
  have wf1: "wf_scene ?st1"
    by (rule wf_update_entities[OF assms(1), of ?e1 i]) (simp_all add: id)
  have d: "distinct (map e_id ?ls)"
  proof -
    have "distinct (map e_id (getAllObjects ?st1))"
      using wf1 by (simp add: wf_ids wf_scene_def)
    then show ?thesis by (rule distinct_map_filter)
  qed
  have ok1: "end_ok ?st1 c a = end_ok st c a" for c a
    by (rule end_ok_written[OF assms(3)]) simp
  have m: "\<forall>l\<in>set ?ls. getObject ?st1 (e_id l) = Some l \<and> is_connector l \<and>
           end_ok ?st1 (startConnectedId (props l)) (startAnchor (props l)) \<and>
           end_ok ?st1 (endConnectedId (props l)) (endAnchor (props l))"
  proof
    fix l assume l: "l \<in> set ?ls"
    then have v: "l \<in> set (getAllObjects ?st1)" and a: "attached_to i l"
      and c: "is_connector l"
      by (simp_all add: attached_to_def)
    have "l \<noteq> ?e1" using c assms(4) by auto
    with values_written[OF assms(1,3) _ v] id have "l \<in> set (getAllObjects st)" by auto
    with assms(2) a have "end_ok st (startConnectedId (props l)) (startAnchor (props l)) \<and>
        end_ok st (endConnectedId (props l)) (endAnchor (props l))"
      unfolding anchors_ok_def by blast
    then show "getObject ?st1 (e_id l) = Some l \<and> is_connector l \<and>
           end_ok ?st1 (startConnectedId (props l)) (startAnchor (props l)) \<and>
           end_ok ?st1 (endConnectedId (props l)) (endAnchor (props l))"
      unfolding ok1 using wf_values[OF wf1 v] c by simp
  qed
  have t: "getObject ?st1 i = Some ?e1" by simp
  have nc: "\<not> is_connector ?e1" using assms(4) by simp
  from routing_loop[OF wf1 d m t nc assms(5), of n] obtain st2 where
    st2: "forEach (updateLineConnections (updateObject (Suc n))) ?ls ?st1 = Returned st2"
      "routed (e_id ` set ?ls) ?st1 st2" "wf_scene st2"
      "\<forall>l\<in>set ?ls. \<exists>l'. getObject st2 (e_id l) = Some l' \<and> rerouted i ?e1 l'" by blast
  let ?st' = "st2\<lparr>isDirty := True\<rparr>"
  have run: "updateObject (Suc (Suc n)) i u st = Returned ?st'"
    by (simp add: updateObject_shape[OF assms(3,4) id] st2(1))
  have g': "\<And>k. getObject ?st' k = getObject st2 k" by (simp add: getObject_def)
  have v': "getAllObjects ?st' = getAllObjects st2" by (simp add: getAllObjects_def)
  have sub: "i \<notin> e_id ` set ?ls"
  proof
    assume "i \<in> e_id ` set ?ls"
    then obtain l where "l \<in> set ?ls" "e_id l = i" by auto
    with m have "getObject ?st1 i = Some l" "is_connector l" by auto
    then show False using nc by simp
  qed
  have gi: "getObject ?st' i = Some ?e1"
    using routed_outside[OF st2(2) sub] by (simp add: g')
  have all: "\<forall>l \<in> set (getAllObjects ?st'). attached_to i l \<longrightarrow> rerouted i ?e1 l"
  proof (intro ballI impI)
    fix l assume v: "l \<in> set (getAllObjects ?st')" and a: "attached_to i l"
    have g2: "getObject st2 (e_id l) = Some l" using wf_values[OF st2(3)] v by (simp add: v')
    from keys_Some[OF routed_keys[OF st2(2)] g2] obtain l0 where
      l0: "getObject ?st1 (e_id l) = Some l0" by blast
    from routed_kept[OF st2(2) l0] g2 have k: "kept l0 l" by simp
    have id0: "e_id l0 = e_id l" using k by (simp add: kept_def)
    have "attached_to i l0" using a k by (simp add: attached_to_def kept_def is_connector_def)
    then have "l0 \<in> set ?ls" using getObject_value[OF l0] by simp
    with st2(4) obtain l' where "getObject st2 (e_id l0) = Some l'" "rerouted i ?e1 l'" by blast
    then show "rerouted i ?e1 l" using g2 id0 by simp
  qed
  show ?thesis using run gi all by blast
qed

theorem connectors_rerouted_witness:
  "wf_scene scene1 \<and> anchors_ok scene1 ''a'' \<and> getObject scene1 ''a'' = Some box0 \<and>
   \<not> is_connector box0 \<and>
   map_option (\<lambda>st. map geometry (getAllObjects st))
       (returned (updateObject 2 ''a'' move_to_50_20 scene1))
     = Some [(''a'', Fin 50, Fin 20, Some (Fin 100), Some (Fin 100), None, None),
             (''l'', Fin 150, Fin 70, Some (Fin 150), Some (Fin 130),
              Some \<lparr>px = Fin 150, py = Fin 70\<rparr>, Some \<lparr>px = Fin 300, py = Fin 200\<rparr>)] \<and>
   (\<exists>st'. updateObject 2 ''a'' move_to_50_20 scene1 = Returned st' \<and>
      getObject st' ''a'' = Some (apply_updates box0 move_to_50_20) \<and>
      list_all (\<lambda>l. attached_to ''a'' l \<longrightarrow> rerouted ''a'' (apply_updates box0 move_to_50_20) l)
        (getAllObjects st'))"
proof -
  have two: "(2::nat) = Suc (Suc 0)" by simp
  have wf: "wf_scene scene1"
    by (simp add: wf_scene_def scene1_def box0_def arrow0_def)
  have an: "anchors_ok scene1 ''a''"
    by (simp add: anchors_ok_def end_ok_def scene1_def getAllObjects_def getObject_def
        valid_anchor_def attached_to_def is_connector_def box0_def arrow0_def no_props_def)
  have g: "getObject scene1 ''a'' = Some box0" by (simp add: getObject_def scene1_def)
  have nc: "\<not> is_connector box0" by (simp add: is_connector_def box0_def)
  have ev: "map_option (\<lambda>st. map geometry (getAllObjects st))
       (returned (updateObject 2 ''a'' move_to_50_20 scene1))
     = Some [(''a'', Fin 50, Fin 20, Some (Fin 100), Some (Fin 100), None, None),
             (''l'', Fin 150, Fin 70, Some (Fin 150), Some (Fin 130),
              Some \<lparr>px = Fin 150, py = Fin 70\<rparr>, Some \<lparr>px = Fin 300, py = Fin 200\<rparr>)]"
    unfolding two
    by (simp add: eval_defs returned_def geometry_def scene1_def box0_def arrow0_def
        move_to_50_20_def)
  show ?thesis
    using connectors_rerouted_on_update[OF wf an g nc, of 0 move_to_50_20] wf an g nc ev
    unfolding two list_all_iff by simp
qed

text \<open>
  C1 fails as stated: the rectangle exists and its type is registered, two arrows start
  at it, and the first of the store carries the \<open>startAnchor\<close> \<open>'x'\<close>. Moving the rectangle to
  (50, 20) returns with a TypeError logged, and the second arrow, whose anchor \<open>'r'\<close> is now
  the point (150, 70), is left where it was: at (100, 50), starting at (100, 50), 200 by
  150.
\<close>

theorem connectors_stale_counterexample:
  "getObject scene_x ''a'' = Some box0 \<and> getObjectType (e_type box0) = Some RectangleType \<and>
   startConnectedId (props arrow0) = Val ''a'' \<and> startAnchor (props arrow0) = Val ''r'' \<and>
   getAnchorPoint (Rectangle_getBBox (apply_updates box0 move_to_50_20)) ''r''
     = Some \<lparr>px = Fin 150, py = Fin 70\<rparr> \<and>
   map_option (\<lambda>st. (map geometry (getAllObjects st), console st))
       (returned (updateObject 2 ''a'' move_to_50_20 scene_x))
     = Some ([(''a'', Fin 50, Fin 20, Some (Fin 100), Some (Fin 100), None, None),
              (''k'', Fin 100, Fin 50, Some (Fin 200), Some (Fin 150),
               Some \<lparr>px = Fin 100, py = Fin 50\<rparr>, Some \<lparr>px = Fin 300, py = Fin 200\<rparr>),
              (''l'', Fin 100, Fin 50, Some (Fin 200), Some (Fin 150),
               Some \<lparr>px = Fin 100, py = Fin 50\<rparr>, Some \<lparr>px = Fin 300, py = Fin 200\<rparr>)],
             [TypeError])"
proof -
  have two: "(2::nat) = Suc (Suc 0)" by simp
  show ?thesis
    unfolding two
    by (simp add: eval_defs returned_def geometry_def scene_x_def scene1_def arrow_x_def
        box0_def arrow0_def move_to_50_20_def)
qed

text \<open>
  An arrow whose \<open>startConnectedId\<close> is the empty string, the identifier of the rectangle
  that is moved: the arrow is written again from its stored end points, not routed to the
  anchor.
\<close>

lemma empty_id_not_rerouted:
  "getObject scene_empty [] = Some box_empty \<and>
   startConnectedId (props arrow_empty) = Val (e_id box_empty) \<and>
   map_option (\<lambda>st. (map geometry (getAllObjects st), console st))
       (returned (updateObject 2 [] move_to_50_20 scene_empty))
     = Some ([([], Fin 50, Fin 20, Some (Fin 100), Some (Fin 100), None, None),
              (''l'', Fin 100, Fin 50, Some (Fin 200), Some (Fin 150),
               Some \<lparr>px = Fin 100, py = Fin 50\<rparr>, Some \<lparr>px = Fin 300, py = Fin 200\<rparr>)],
             [])"
proof -
  have two: "(2::nat) = Suc (Suc 0)" by simp
  show ?thesis
    unfolding two
    by (simp add: eval_defs returned_def geometry_def scene_empty_def scene1_def
        box_empty_def arrow_empty_def box0_def arrow0_def move_to_50_20_def)
qed

section \<open>Properties: export and import\<close>

lemma load_one_Record:
  "load_one (Record e) st = Returned (st\<lparr>entities := AList.update (e_id e) e (entities st)\<rparr>)"
  by (simp add: load_one_def)

lemma load_records:
  "forEach load_one (map Record es) st =
     Returned (st\<lparr>entities := fold (\<lambda>e. AList.update (e_id e) e) es (entities st)\<rparr>)"
proof (induction es arbitrary: st)
  case Nil
  then show ?case by simp
next
  case (Cons e es)
  show ?case by (simp add: load_one_Record Cons.IH)
qed

lemma loadData_records:
  "loadData (map Record es) st = Returned (st\<lparr>entities := loaded es\<rparr>)"
  by (simp add: loadData_def load_records loaded_def)

lemma update_fresh: "k \<notin> fst ` set al \<Longrightarrow> AList.update k v al = al @ [(k, v)]"
  by (induction al) auto

lemma fold_update_fresh:
  "distinct (map e_id es) \<Longrightarrow> e_id ` set es \<inter> fst ` set al = {} \<Longrightarrow>
   fold (\<lambda>e. AList.update (e_id e) e) es al = al @ map (\<lambda>e. (e_id e, e)) es"
proof (induction es arbitrary: al)
  case Nil
  then show ?case by simp
next
  case (Cons e es)
  have f: "e_id e \<notin> fst ` set al" using Cons.prems(2) by auto
  have "e_id ` set es \<inter> fst ` set (al @ [(e_id e, e)]) = {}"
    using Cons.prems by auto
  then show ?case using Cons.IH[of "al @ [(e_id e, e)]"] Cons.prems(1) f
    by (simp add: update_fresh)
qed

lemma loaded_distinct:
  "distinct (map e_id es) \<Longrightarrow> loaded es = map (\<lambda>e. (e_id e, e)) es"
  using fold_update_fresh[of es "[]"] by (simp add: loaded_def)


lemma deselect_absent:
  assumes "\<forall>sid\<in>set sids. getObject st sid = None"
  shows "forEach (\<lambda>sid. updateObject (Suc n) sid u) sids st = Returned st"
  using assms by (induction sids) (simp_all add: updateObject_absent)

lemma clearSelection_absent:
  assumes "\<forall>sid\<in>set (selectedIds st). getObject st sid = None"
  shows "clearSelection (Suc n) st =
     Returned (st\<lparr>selectedIds := [], emitted := emitted st @ [SELECTION_CHANGED []],
                  isDirty := True\<rparr>)"
  using deselect_absent[OF assms]
  by (simp add: clearSelection_def deselect_all_def seq_def broadcastSelection_eq)

lemma getObject_loaded:
  "getObject (st\<lparr>entities := loaded es\<rparr>) k = None \<longleftrightarrow> k \<notin> e_id ` set es"
proof -
  have "\<And>al. fst ` set (fold (\<lambda>e. AList.update (e_id e) e) es al) = e_id ` set es \<union> fst ` set al"
    by (induction es) (auto simp: dom_update)
  then have "fst ` set (loaded es) = e_id ` set es" by (simp add: loaded_def)
  then show ?thesis by (simp add: getObject_def map_of_eq_None_iff)
qed

lemma import_array:
  assumes "loadData objs (scene eng) = Returned st1" "clearSelection n st1 = Returned st2"
  shows "importData n (Array objs) eng = Returned (set_dirty (eng\<lparr>scene := st2\<rparr>))"
  using assms by (simp add: importData_def try_catch_def seq_def on_scene_def)

lemma import_records:
  assumes dis: "set (selectedIds (scene eng)) \<inter> e_id ` set es = {}"
  shows "\<exists>eng'. importData (Suc n) (Array (map Record es)) eng = Returned eng' \<and>
         entities (scene eng') = loaded es \<and>
         (distinct (map e_id es) \<longrightarrow> getAllObjects (scene eng') = es) \<and>
         selectedIds (scene eng') = [] \<and>
         emitted (scene eng') = emitted (scene eng) @ [SELECTION_CHANGED []]"
proof -
  let ?st1 = "(scene eng)\<lparr>entities := loaded es\<rparr>"
  have absent: "\<forall>sid\<in>set (selectedIds ?st1). getObject ?st1 sid = None"
    using dis by (auto simp: getObject_loaded)
  let ?st2 = "?st1\<lparr>selectedIds := [], emitted := emitted ?st1 @ [SELECTION_CHANGED []],
                isDirty := True\<rparr>"
  have run: "importData (Suc n) (Array (map Record es)) eng
      = Returned (set_dirty (eng\<lparr>scene := ?st2\<rparr>))"
    by (rule import_array[OF loadData_records clearSelection_absent[OF absent]])
  have "distinct (map e_id es) \<longrightarrow> map snd (loaded es) = es"
    by (auto simp: loaded_distinct comp_def)
  then show ?thesis
    unfolding run by (simp add: set_dirty_def getAllObjects_def)
qed

text \<open>
  C2, as amended. A payload that is not parseable, or does not parse to an array, leaves
  the store, the selection and the event log as they were (the parse error goes to the
  console). A payload that parses to an array of entity records none of whose identifiers
  is selected replaces the store by the records, each stored under its identifier in the
  order of the array (the array itself, when its identifiers are distinct), clears the
  selection, and emits SELECTION_CHANGED and no other event.
\<close>

theorem importData_rejects_or_replaces:
  "importData n Non_array eng = Returned eng \<and>
   importData n Unparseable eng = Returned (eng\<lparr>scene := console_error SyntaxError (scene eng)\<rparr>) \<and>
   entities (console_error SyntaxError (scene eng)) = entities (scene eng) \<and>
   selectedIds (console_error SyntaxError (scene eng)) = selectedIds (scene eng) \<and>
   emitted (console_error SyntaxError (scene eng)) = emitted (scene eng) \<and>
   (set (selectedIds (scene eng)) \<inter> e_id ` set es = {} \<longrightarrow>
      (\<exists>eng'. importData (Suc n) (Array (map Record es)) eng = Returned eng' \<and>
         entities (scene eng') = loaded es \<and>
         (distinct (map e_id es) \<longrightarrow> getAllObjects (scene eng') = es) \<and>
         selectedIds (scene eng') = [] \<and>
         emitted (scene eng') = emitted (scene eng) @ [SELECTION_CHANGED []]))"
proof -
  have a: "importData n Non_array eng = Returned eng"
    by (simp add: importData_def try_catch_def)
  have b: "importData n Unparseable eng
       = Returned (eng\<lparr>scene := console_error SyntaxError (scene eng)\<rparr>)"
    by (simp add: importData_def try_catch_def)
  have c: "set (selectedIds (scene eng)) \<inter> e_id ` set es = {} \<longrightarrow>
      (\<exists>eng'. importData (Suc n) (Array (map Record es)) eng = Returned eng' \<and>
         entities (scene eng') = loaded es \<and>
         (distinct (map e_id es) \<longrightarrow> getAllObjects (scene eng') = es) \<and>
         selectedIds (scene eng') = [] \<and>
         emitted (scene eng') = emitted (scene eng) @ [SELECTION_CHANGED []])"
    using import_records[of eng es n] by blast
  show ?thesis using a b c by (simp add: console_error_def)
qed

theorem importData_witness:
  "importData 1 Non_array engine0 = Returned engine0 \<and>
   set (selectedIds (scene engine0)) \<inter> e_id ` set [selected_box] = {} \<and>
   map_option (\<lambda>eng. (getAllObjects (scene eng), selectedIds (scene eng), emitted (scene eng)))
     (returned (importData 1 (Array (map Record [selected_box])) engine0))
     = Some ([selected_box], [], [SELECTION_CHANGED []])"
proof -
  have one: "(1::nat) = Suc 0" by simp
  have d: "set (selectedIds (scene engine0)) \<inter> e_id ` set [selected_box] = {}"
    by (simp add: engine0_def scene0_def)
  have e: "emitted (scene engine0) = []" by (simp add: engine0_def scene0_def)
  from importData_rejects_or_replaces[of 0 engine0 "[selected_box]"] d obtain eng' where
    "importData (Suc 0) (Array (map Record [selected_box])) engine0 = Returned eng'"
    "getAllObjects (scene eng') = [selected_box]" "selectedIds (scene eng') = []"
    "emitted (scene eng') = emitted (scene engine0) @ [SELECTION_CHANGED []]"
    by auto
  then show ?thesis
    using importData_rejects_or_replaces[of 1 engine0 "[]"] d e
    unfolding one by (simp add: returned_def)
qed

text \<open>
  C2 fails as stated: importing an array that holds the record of the selected rectangle
  leaves in the store a record that differs from the one of the array (its flag is
  cleared), and emits the per-entity event ENTITY_UPDATED.
\<close>

theorem importData_selected_counterexample:
  "map_option (\<lambda>eng. getAllObjects (scene eng))
     (returned (importData 2 (Array [Record selected_box]) engine_sel)) = Some [deselected_box] \<and>
   deselected_box \<noteq> selected_box \<and>
   map_option (\<lambda>eng. filter entity_event (emitted (scene eng)))
     (returned (importData 2 (Array [Record selected_box]) engine_sel))
     = Some [ENTITY_UPDATED selected_box deselected_box]"
proof -
  have two: "(2::nat) = Suc (Suc 0)" by simp
  show ?thesis
    unfolding two
    by (simp add: importData_def loadData_def load_one_def on_scene_def set_dirty_def
        returned_def entity_event_def engine_sel_def engine0_def scene0_def selected_box_def
        deselected_box_def box0_def eval_defs)
qed




text \<open>
  An array with a \<open>null\<close> element: \<open>loadData\<close> has emptied the store when \<open>obj.id\<close> throws,
  and the selection is not cleared.
\<close>

lemma importData_null_element:
  "map_option (\<lambda>eng. (getAllObjects (scene eng), selectedIds (scene eng), console (scene eng)))
     (returned (importData 2 (Array [Null_element]) engine_sel)) = Some ([], [''a''], [TypeError])"
  by (simp add: importData_def loadData_def load_one_def on_scene_def try_catch_def seq_def
      returned_def engine_sel_def engine0_def scene0_def getAllObjects_def console_error_def)

section \<open>Properties: pointer-up\<close>

lemma same_shape_refl [simp]: "same_shape e e"
  by (simp add: same_shape_def)

lemma same_shape_trans: "same_shape a b \<Longrightarrow> same_shape b c \<Longrightarrow> same_shape a c"
  by (simp add: same_shape_def)

lemma same_shape_attached: "same_shape e e' \<Longrightarrow> attached_to s e' = attached_to s e"
  by (simp add: same_shape_def attached_to_def is_connector_def)

lemma same_shape_flag [simp]: "same_shape e (apply_updates e (selected_update b))"
  by (simp add: same_shape_def apply_updates_def selected_update_def no_updates_def)

lemma updateObject_routes:
  assumes "wf_scene st" "getObject st i = Some e"
  shows "\<exists>st'. updateObject (Suc (Suc n)) i u st = Returned st' \<and> wf_scene st' \<and>
           routed (attached_keys st i) (written st i e (apply_updates e u)) st'"
proof -
  let ?e1 = "apply_updates e u"
  let ?st1 = "written st i e ?e1"
  have id: "e_id e = i" by (rule wf_lookup[OF assms])
  have wf1: "wf_scene ?st1"
    by (rule wf_update_entities[OF assms(1), of ?e1 i]) (simp_all add: id)
  show ?thesis
  proof (cases "is_connector e")
    case True
    have "updateObject (Suc (Suc n)) i u st = Returned (?st1\<lparr>isDirty := True\<rparr>)"
      using True
      by (simp add: updateObject_Suc[of "Suc n"] updateObject_body_present[OF assms(2)]
          emit_two onEntityUpdated_def)
    moreover have "wf_scene (?st1\<lparr>isDirty := True\<rparr>)"
      by (rule wf_same_store[OF wf1]) simp
    moreover have "routed (attached_keys st i) ?st1 (?st1\<lparr>isDirty := True\<rparr>)"
      by (rule routed_same_store[OF routed_refl]) simp_all
    ultimately show ?thesis by blast
  next
    case False
    let ?ls = "filter (attached_to i) (getAllObjects ?st1)"
    have d: "distinct (map e_id ?ls)"
    proof -
      have "distinct (map e_id (getAllObjects ?st1))"
        using wf1 by (simp add: wf_ids wf_scene_def)
      then show ?thesis by (rule distinct_map_filter)
    qed
    have m: "\<forall>l\<in>set ?ls. getObject ?st1 (e_id l) = Some l \<and> is_connector l"
      using wf_values[OF wf1] by (auto simp: attached_to_def)
    from lines_loop[OF wf1 d m, of n] obtain st2 where
      st2: "forEach (updateLineConnections (updateObject (Suc n))) ?ls ?st1 = Returned st2 \<or>
            forEach (updateLineConnections (updateObject (Suc n))) ?ls ?st1 = Threw TypeError st2"
      "routed (e_id ` set ?ls) ?st1 st2" "wf_scene st2" by blast
    have sub: "e_id ` set ?ls \<subseteq> attached_keys st i"
    proof
      fix k assume "k \<in> e_id ` set ?ls"
      then obtain l where l: "l \<in> set ?ls" "k = e_id l" by blast
      with m have g: "getObject ?st1 k = Some l" and c: "is_connector l" by simp_all
      have ne: "k \<noteq> i" using g c False by (auto split: if_splits)
      then have "getObject st k = Some l" using g by simp
      moreover have "attached_to i l" using l(1) by simp
      ultimately show "k \<in> attached_keys st i" using ne by (auto simp: attached_keys_def)
    qed
    have r2: "routed (attached_keys st i) ?st1 st2" by (rule routed_mono[OF st2(2) sub])
    let ?st' = "case forEach (updateLineConnections (updateObject (Suc n))) ?ls ?st1 of
        Returned s \<Rightarrow> s\<lparr>isDirty := True\<rparr>
      | Threw err s \<Rightarrow> (console_error err s)\<lparr>isDirty := True\<rparr>
      | _ \<Rightarrow> st"
    have run: "updateObject (Suc (Suc n)) i u st = Returned ?st'"
      using st2(1) by (auto simp: updateObject_shape[OF assms(2) False id])
    have same: "entities ?st' = entities st2" "selectedIds ?st' = selectedIds st2"
      "emitted ?st' = emitted st2"
      using st2(1) by (auto simp: console_error_def)
    have "wf_scene ?st'" by (rule wf_same_store[OF st2(3) same(1)])
    moreover have "routed (attached_keys st i) ?st1 ?st'"
      by (rule routed_same_store[OF r2 same])
    ultimately show ?thesis using run by blast
  qed
qed

text \<open>
  The loop of \<open>deselectAll\<close>, seen from one entity: it stays in the store, and it keeps
  its shape when it is attached to none of the deselected entities.
\<close>

lemma deselect_step_shape:
  assumes "wf_scene st" "getObject st cid = Some e"
  shows "\<exists>st' e'. updateObject (Suc (Suc n)) sid (selected_update b) st = Returned st' \<and>
           wf_scene st' \<and> selectedIds st' = selectedIds st \<and> getObject st' cid = Some e' \<and>
           (\<not> attached_to sid e \<longrightarrow> same_shape e e')"
proof (cases "getObject st sid")
  case None
  then show ?thesis using assms by (simp add: updateObject_absent)
next
  case (Some x)
  let ?st1 = "written st sid x (apply_updates x (selected_update b))"
  from updateObject_routes[OF assms(1) Some, of n "selected_update b"] obtain st' where
    st': "updateObject (Suc (Suc n)) sid (selected_update b) st = Returned st'" "wf_scene st'"
      "routed (attached_keys st sid) ?st1 st'" by blast
  have sel: "selectedIds st' = selectedIds st" using routed_selected[OF st'(3)] by simp
  let ?e1 = "if cid = sid then apply_updates x (selected_update b) else e"
  have g1: "getObject ?st1 cid = Some ?e1" using assms(2) by simp
  from routed_kept[OF st'(3) g1] obtain e' where e': "getObject st' cid = Some e'" by blast
  have "same_shape e e'" if a: "\<not> attached_to sid e"
  proof -
    have "cid \<notin> attached_keys st sid" using a assms(2) by (auto simp: attached_keys_def)
    from routed_outside[OF st'(3) this] g1 e' have "e' = ?e1" by simp
    then show ?thesis using Some assms(2) by auto
  qed
  then show ?thesis using st'(1,2) sel e' by blast
qed

lemma deselect_loop_shape:
  assumes "wf_scene st" "getObject st cid = Some e"
  shows "\<exists>st' e'. forEach (\<lambda>sid. updateObject (Suc (Suc n)) sid (selected_update b)) sids st
             = Returned st' \<and>
           wf_scene st' \<and> selectedIds st' = selectedIds st \<and> getObject st' cid = Some e' \<and>
           ((\<forall>s\<in>set sids. \<not> attached_to s e) \<longrightarrow> same_shape e e')"
  using assms
proof (induction sids arbitrary: st e)
  case Nil
  then show ?case by simp
next
  case (Cons sid sids)
  from deselect_step_shape[OF Cons.prems, of n sid b] obtain st1 e1 where
    st1: "updateObject (Suc (Suc n)) sid (selected_update b) st = Returned st1" "wf_scene st1"
      "selectedIds st1 = selectedIds st" "getObject st1 cid = Some e1"
      "\<not> attached_to sid e \<longrightarrow> same_shape e e1" by blast
  from Cons.IH[OF st1(2,4)] obtain st' e' where
    st': "forEach (\<lambda>sid. updateObject (Suc (Suc n)) sid (selected_update b)) sids st1
             = Returned st'"
      "wf_scene st'" "selectedIds st' = selectedIds st1" "getObject st' cid = Some e'"
      "(\<forall>s\<in>set sids. \<not> attached_to s e1) \<longrightarrow> same_shape e1 e'" by blast
  have "same_shape e e'" if a: "\<forall>s\<in>set (sid # sids). \<not> attached_to s e"
  proof -
    have s1: "same_shape e e1" using a st1(5) by simp
    then have "\<forall>s\<in>set sids. \<not> attached_to s e1" using a by (simp add: same_shape_attached)
    with st'(5) have "same_shape e1 e'" by simp
    with s1 show ?thesis by (rule same_shape_trans)
  qed
  then show ?case using st1(1,3) st'(1,2,3,4) by auto
qed

text \<open>\<open>select(id)\<close> of an entity of the store: it returns, and the entity is the selection.\<close>

lemma select_sole:
  assumes "wf_scene st" "getObject st cid = Some e"
  shows "\<exists>st' e'. select (Suc (Suc n)) cid False st = Returned st' \<and> wf_scene st' \<and>
           selectedIds st' = [cid] \<and> getObject st' cid = Some e' \<and>
           selected (metadata e') = Some True \<and>
           ((\<forall>s\<in>set (selectedIds st). \<not> attached_to s e) \<longrightarrow> same_shape e e')"
proof -
  from deselect_loop_shape[OF assms, of n False "selectedIds st"] obtain st1 e1 where
    st1: "forEach (\<lambda>sid. updateObject (Suc (Suc n)) sid (selected_update False))
            (selectedIds st) st = Returned st1"
      "wf_scene st1" "getObject st1 cid = Some e1"
      "(\<forall>s\<in>set (selectedIds st). \<not> attached_to s e) \<longrightarrow> same_shape e e1" by blast
  let ?st2 = "st1\<lparr>selectedIds := [cid]\<rparr>"
  have wf2: "wf_scene ?st2" by (rule wf_same_store[OF st1(2)]) simp
  have g2: "getObject ?st2 cid = Some e1" using st1(3) by (simp add: getObject_def)
  from updateObject_result[OF wf2 g2, of n "selected_update True"] obtain st3 where
    st3: "updateObject (Suc (Suc n)) cid (selected_update True) ?st2 = Returned st3"
      "wf_scene st3" "getObject st3 cid = Some (apply_updates e1 (selected_update True))"
      "selectedIds st3 = selectedIds ?st2" by blast
  let ?st4 = "st3\<lparr>emitted := emitted st3 @ [SELECTION_CHANGED (selectedIds st3)],
                  isDirty := True\<rparr>"
  have run: "select (Suc (Suc n)) cid False st = Returned ?st4"
    using st1(1) st3(1)
    by (simp add: select_def deselect_all_def set_add_def broadcastSelection_eq seq_def)
  have wf4: "wf_scene ?st4" by (rule wf_same_store[OF st3(2)]) simp
  have g4: "getObject ?st4 cid = Some (apply_updates e1 (selected_update True))"
    using st3(3) by (simp add: getObject_def)
  have sh: "(\<forall>s\<in>set (selectedIds st). \<not> attached_to s e) \<longrightarrow>
      same_shape e (apply_updates e1 (selected_update True))"
    using st1(4) same_shape_trans[OF _ same_shape_flag, of e e1 True] by blast
  show ?thesis using run wf4 g4 sh st3(4) by simp
qed

lemma switchTool_SELECT:
  "switchTool n fresh SELECT None eng =
     Returned (eng\<lparr>activeTool := SELECT, framePreset := None,
       scene := (scene eng)\<lparr>emitted := emitted (scene eng) @ [TOOL_CHANGED SELECT]\<rparr>\<rparr>)"
  by (simp add: switchTool_def Let_def on_scene_def events_emit_def emit_def)

text \<open>The snapping step of \<open>onPointerUp\<close>, on an entity of the store.\<close>

lemma snap_result:
  assumes "wf_scene (scene eng)" "getObject (scene eng) cid = Some ent"
  shows "\<exists>st1 ent1. snap_to_fallback (Suc (Suc n)) cid eng = Returned (eng\<lparr>scene := st1\<rparr>) \<and>
           wf_scene st1 \<and> selectedIds st1 = selectedIds (scene eng) \<and>
           getObject st1 cid = Some ent1 \<and> e_type ent1 = e_type ent \<and>
           transform ent1 = transform ent \<and>
           startConnectedId (props ent1) = startConnectedId (props ent) \<and>
           endConnectedId (props ent1) = endConnectedId (props ent) \<and>
           (snaps ent \<longrightarrow>
              width (props ent1) = Some (Fin (fst (fallback_size (framePreset eng) (e_type ent))))
            \<and> height (props ent1) = Some (Fin (snd (fallback_size (framePreset eng) (e_type ent)))))"
proof (cases "snaps ent")
  case False
  have "snap_to_fallback (Suc (Suc n)) cid eng = Returned (eng\<lparr>scene := scene eng\<rparr>)"
    using False assms(2) by (auto simp: snap_to_fallback_def snaps_def)
  then show ?thesis
    using False assms by (intro exI[of _ "scene eng"] exI[of _ ent]) simp
next
  case True
  let ?fb = "fallback_size (framePreset eng) (e_type ent)"
  define p where "p = (if is_connector ent then
      (props ent)\<lparr>width := Some (Fin (fst ?fb)), height := Some (Fin (snd ?fb)),
         p_end := Some \<lparr>px = num_add (t_x (transform ent)) (Fin (fst ?fb)),
                        py = num_add (t_y (transform ent)) (Fin (snd ?fb))\<rparr>\<rparr>
      else (props ent)\<lparr>width := Some (Fin (fst ?fb)), height := Some (Fin (snd ?fb))\<rparr>)"
  define ent1 where "ent1 = apply_updates ent (no_updates\<lparr>u_props := Some p\<rparr>)"
  from updateObject_result[OF assms, of n "no_updates\<lparr>u_props := Some p\<rparr>"] obtain st1 where
    st1: "updateObject (Suc (Suc n)) cid (no_updates\<lparr>u_props := Some p\<rparr>) (scene eng)
            = Returned st1" "wf_scene st1"
      "getObject st1 cid = Some ent1"
      "selectedIds st1 = selectedIds (scene eng)" unfolding ent1_def by blast
  have run: "snap_to_fallback (Suc (Suc n)) cid eng = Returned (eng\<lparr>scene := st1\<rparr>)"
    using True[unfolded snaps_def] assms(2)
      on_scene_Returned[of "updateObject (Suc (Suc n)) cid (no_updates\<lparr>u_props := Some p\<rparr>)"
        eng st1, OF st1(1)]
    by (cases "is_connector ent") (simp_all add: snap_to_fallback_def Let_def p_def)
  have f: "e_type ent1 = e_type ent" "transform ent1 = transform ent"
    "startConnectedId (props ent1) = startConnectedId (props ent)"
    "endConnectedId (props ent1) = endConnectedId (props ent)"
    "width (props ent1) = Some (Fin (fst ?fb))"
    "height (props ent1) = Some (Fin (snd ?fb))"
    by (simp_all add: ent1_def p_def apply_updates_def no_updates_def spread_props_def)
  show ?thesis
    using run st1(2,3,4) f by blast
qed

text \<open>
  C6. Pointer-up in the Creating state (the identifier of the entity being created is
  set and names an entity of a well-formed store): \<open>onPointerUp\<close> returns; the entity is
  then the only selected one and is flagged as selected, the active tool is SELECT and
  nothing is being created any more. When the entity is attached to none of the entities
  that were selected at pointer-up, its transform is unchanged, and if its width or height
  was below 10 and it is no LINE or ARROW with \<open>endConnectedId\<close> set, its width and height
  are the fallback size of its type (for a FRAME that of the active preset, if one is set).
\<close>

theorem onPointerUp_snaps_and_selects:
  assumes "wf_scene (scene eng)" and "creatingEntityId eng = Some cid" and "cid \<noteq> []"
    and "getObject (scene eng) cid = Some ent"
  shows "\<exists>eng' ent'.
           onPointerUp (Suc (Suc n)) eng = Returned eng' \<and>
           selectedIds (scene eng') = [cid] \<and> activeTool eng' = SELECT \<and>
           creatingEntityId eng' = None \<and>
           getObject (scene eng') cid = Some ent' \<and> selected (metadata ent') = Some True \<and>
           ((\<forall>s \<in> set (selectedIds (scene eng)). \<not> attached_to s ent) \<longrightarrow>
              transform ent' = transform ent \<and>
              ((num_lt (ToNumber (width (props ent))) (Fin 10) \<or>
                num_lt (ToNumber (height (props ent))) (Fin 10)) \<and>
               \<not> (is_connector ent \<and> truthy (endConnectedId (props ent))) \<longrightarrow>
                 width (props ent')
                   = Some (Fin (fst (fallback_size (framePreset eng) (e_type ent)))) \<and>
                 height (props ent')
                   = Some (Fin (snd (fallback_size (framePreset eng) (e_type ent))))))"
proof -
  let ?snaps = "(num_lt (ToNumber (width (props ent))) (Fin 10) \<or>
                num_lt (ToNumber (height (props ent))) (Fin 10)) \<and>
               \<not> (is_connector ent \<and> truthy (endConnectedId (props ent)))"
  let ?fb = "fallback_size (framePreset eng) (e_type ent)"
  from snap_result[OF assms(1,4), of n] obtain st1 ent1 where
    st1: "snap_to_fallback (Suc (Suc n)) cid eng = Returned (eng\<lparr>scene := st1\<rparr>)"
      "wf_scene st1" "selectedIds st1 = selectedIds (scene eng)"
      "getObject st1 cid = Some ent1" "e_type ent1 = e_type ent"
      "transform ent1 = transform ent"
      "startConnectedId (props ent1) = startConnectedId (props ent)"
      "endConnectedId (props ent1) = endConnectedId (props ent)"
      "snaps ent \<longrightarrow> width (props ent1) = Some (Fin (fst ?fb)) \<and>
                      height (props ent1) = Some (Fin (snd ?fb))" by blast
  from select_sole[OF st1(2,4), of n] obtain st2 ent2 where
    st2: "select (Suc (Suc n)) cid False st1 = Returned st2"
      "selectedIds st2 = [cid]" "getObject st2 cid = Some ent2"
      "selected (metadata ent2) = Some True"
      "(\<forall>s\<in>set (selectedIds st1). \<not> attached_to s ent1) \<longrightarrow> same_shape ent1 ent2" by blast
  let ?st3 = "st2\<lparr>emitted := emitted st2 @ [TOOL_CHANGED SELECT]\<rparr>"
  let ?eng' = "eng\<lparr>scene := ?st3, creatingEntityId := None, createStartPoint := None,
     activeTool := SELECT, framePreset := None, isPanning := False, isResizing := False,
     resizeHandle := None, resizeOriginal := None, draggedEntityId := None,
     draggedChildrenIds := []\<rparr>"
  have sel: "on_scene (select (Suc (Suc n)) cid False) (eng\<lparr>scene := st1\<rparr>)
      = Returned (eng\<lparr>scene := st2\<rparr>)"
    using st2(1) by (simp add: on_scene_def)
  have run: "onPointerUp (Suc (Suc n)) eng = Returned ?eng'"
    using assms(2,3) st1(1) sel
    by (simp add: onPointerUp_def Let_def switchTool_SELECT seq_def)
  have g: "getObject (scene ?eng') cid = Some ent2" using st2(3) by (simp add: getObject_def)
  have att: "attached_to s ent1 = attached_to s ent" for s
    using st1(5,7,8) by (simp add: attached_to_def is_connector_def)
  have geo: "transform ent2 = transform ent \<and>
      (?snaps \<longrightarrow> width (props ent2) = Some (Fin (fst ?fb)) \<and>
                  height (props ent2) = Some (Fin (snd ?fb)))"
    if a: "\<forall>s \<in> set (selectedIds (scene eng)). \<not> attached_to s ent"
  proof -
    have "same_shape ent1 ent2" using st2(5) a by (simp add: st1(3) att)
    then have "transform ent2 = transform ent1" "props ent2 = props ent1"
      by (simp_all add: same_shape_def)
    then show ?thesis using st1(6,9) by (simp add: snaps_def)
  qed
  have "selectedIds (scene ?eng') = [cid]" "activeTool ?eng' = SELECT"
    "creatingEntityId ?eng' = None"
    using st2(2) by simp_all
  with run g st2(4) geo show ?thesis by blast
qed

lemmas pointer_defs =
  onPointerDown_def onPointerMove_def onPointerUp_def hover_block_def creating_branch_def
  find_button.simps is_device_frame_def toolToType_def start_shape_def start_connector_def
  defaultProps_def screenToWorld_def hitTestShapes_def hits_def Rectangle_hitTest_def
  Line_hitTest_def getAnchorAt_def near_anchor_def near_def on_scene_def createObject_def
  and_then_def snap_to_fallback_def fallback_size_def switchTool_def set_dirty_def
  pan_or_drag_def

lemma rectangle_drag_reaches_creating:
  "and_then (onPointerDown 2 ''r'' [] press0 drawing0) (onPointerMove 2 move0)
     = Returned creating_rect"
proof -
  have two: "(2::nat) = Suc (Suc 0)" by simp
  show ?thesis
    unfolding two
    by (simp add: pointer_defs eval_defs creating_rect_def rect_dragged_def rect_new_def
        drawing0_def press0_def move0_def engine0_def new_scene_def)
qed

lemma arrow_drag_reaches_creating:
  "and_then (and_then (onPointerMove 2 hover_l engine_sel) (onPointerDown 2 ''l'' [] hover_l))
     (onPointerMove 2 drag_l) = Returned creating_arrow"
proof -
  have two: "(2::nat) = Suc (Suc 0)" by simp
  show ?thesis
    unfolding two
    by (simp add: pointer_defs eval_defs creating_arrow_def arrow_dragged_def arrow_new_def
        engine_sel_def selected_box_def box0_def hover_l_def drag_l_def engine0_def scene0_def)
qed

theorem onPointerUp_witness:
  "wf_scene (scene creating_rect) \<and> creatingEntityId creating_rect = Some ''r'' \<and>
   getObject (scene creating_rect) ''r'' = Some rect_dragged \<and>
   width (props rect_dragged) = Some (Fin 5) \<and> height (props rect_dragged) = Some (Fin 5) \<and>
   (\<exists>eng' ent'.
      onPointerUp 2 creating_rect = Returned eng' \<and>
      selectedIds (scene eng') = [''r''] \<and> activeTool eng' = SELECT \<and>
      creatingEntityId eng' = None \<and>
      getObject (scene eng') ''r'' = Some ent' \<and> selected (metadata ent') = Some True \<and>
      t_x (transform ent') = Fin 0 \<and> t_y (transform ent') = Fin 0 \<and>
      width (props ent') = Some (Fin 100) \<and> height (props ent') = Some (Fin 100))"
proof -
  have two: "(2::nat) = Suc (Suc 0)" by simp
  have wf: "wf_scene (scene creating_rect)"
    by (simp add: wf_scene_def creating_rect_def rect_dragged_def rect_new_def)
  have c: "creatingEntityId creating_rect = Some ''r''" by (simp add: creating_rect_def)
  have g: "getObject (scene creating_rect) ''r'' = Some rect_dragged"
    by (simp add: getObject_def creating_rect_def)
  have s: "selectedIds (scene creating_rect) = []"
    by (simp add: creating_rect_def new_scene_def)
  have r: "width (props rect_dragged) = Some (Fin 5)" "height (props rect_dragged) = Some (Fin 5)"
    "\<not> is_connector rect_dragged"
    "transform rect_dragged
       = \<lparr>t_x = Fin 0, t_y = Fin 0, scaleX = Fin 1, scaleY = Fin 1, rotation = Fin 0\<rparr>"
    "fallback_size (framePreset creating_rect) (e_type rect_dragged) = (100, 100)"
    by (simp_all add: rect_dragged_def rect_new_def is_connector_def fallback_size_def)
  show ?thesis
    unfolding two
    using onPointerUp_snaps_and_selects[OF wf c _ g, of 0] wf c g
    by (auto simp: s r)
qed

text \<open>
  C6 fails as stated: the arrow drawn from the left anchor of the selected rectangle to
  (-9, 50) is 9 wide and 0 high at pointer-up and has no end connection, and after
  \<open>onPointerUp\<close> it is neither 100 by 100 nor where it was: deselecting the rectangle
  re-routes the arrow to the anchor, so that it lies at (0, 50) and is 91 by 100.
\<close>

theorem onPointerUp_attached_counterexample:
  "creatingEntityId creating_arrow = Some ''l'' \<and>
   getObject (scene creating_arrow) ''l'' = Some arrow_dragged \<and>
   geometry arrow_dragged
     = (''l'', Fin (- 9), Fin 50, Some (Fin 9), Some (Fin 0),
        Some \<lparr>px = Fin 0, py = Fin 50\<rparr>, Some \<lparr>px = Fin (- 9), py = Fin 50\<rparr>) \<and>
   endConnectedId (props arrow_dragged) = Null \<and>
   fallback_size (framePreset creating_arrow) (e_type arrow_dragged) = (100, 100) \<and>
   map_option (\<lambda>eng. map_option geometry (getObject (scene eng) ''l''))
     (returned (onPointerUp 2 creating_arrow))
     = Some (Some (''l'', Fin 0, Fin 50, Some (Fin 91), Some (Fin 100),
                   Some \<lparr>px = Fin 0, py = Fin 50\<rparr>, Some \<lparr>px = Fin 91, py = Fin 150\<rparr>))"
proof -
  have two: "(2::nat) = Suc (Suc 0)" by simp
  show ?thesis
    unfolding two
    by (simp add: pointer_defs eval_defs returned_def geometry_def fallback_size_def
        creating_arrow_def arrow_dragged_def arrow_new_def engine_sel_def selected_box_def
        box0_def engine0_def scene0_def)
qed

text \<open>
  The same drawing with the rectangle not selected: the arrow keeps its place and is
  100 by 100 after \<open>onPointerUp\<close>.
\<close>

lemma onPointerUp_attached_unselected:
  "map_option (\<lambda>eng. map_option geometry (getObject (scene eng) ''l''))
     (returned (onPointerUp 2
        (creating_arrow\<lparr>scene := (scene creating_arrow)\<lparr>
           entities := [(''a'', box0), (''l'', arrow_dragged)], selectedIds := []\<rparr>\<rparr>)))
     = Some (Some (''l'', Fin (- 9), Fin 50, Some (Fin 100), Some (Fin 100),
                   Some \<lparr>px = Fin 0, py = Fin 50\<rparr>, Some \<lparr>px = Fin 91, py = Fin 150\<rparr>))"
proof -
  have two: "(2::nat) = Suc (Suc 0)" by simp
  show ?thesis
    unfolding two
    by (simp add: pointer_defs eval_defs returned_def geometry_def fallback_size_def
        creating_arrow_def arrow_dragged_def arrow_new_def engine_sel_def selected_box_def
        box0_def engine0_def scene0_def)
qed

end
